theory Spec2Isabelle
  imports Complex_Main
begin

section \<open>Values read from JSON and from the environment\<close>

text \<open>
  The program is Python. Its floats are idealised as the reals: there is no rounding, no
  overflow and no NaN in this development, and the only place where the source rounds on
  purpose (the eight-decimal strings of the ticker aggregation) is written out.

  A dictionary entry that the source reads as \<^verbatim>\<open>float(d.get(key, default))\<close> is one of:
  absent (the default is used), a value whose \<^verbatim>\<open>float\<close> is a number, or a value on
  which \<^verbatim>\<open>float\<close> raises (null, a non-numeric string, a list).
\<close>

datatype pyval = Missing | Num real | Junk

datatype py_error = ValueError | AttributeError | RpcError

definition py_float :: "real \<Rightarrow> pyval \<Rightarrow> py_error + real" where
  "py_float d v = (case v of Missing \<Rightarrow> Inr d | Num r \<Rightarrow> Inr r | Junk \<Rightarrow> Inl ValueError)"

text \<open>\<^verbatim>\<open>d.get(key, '')\<close> on a string-valued entry.\<close>

definition get_str :: "string option \<Rightarrow> string" where
  "get_str v = (case v of None \<Rightarrow> [] | Some s \<Rightarrow> s)"

text \<open>\<^verbatim>\<open>name.startswith(p)\<close>.\<close>

definition startswith :: "string \<Rightarrow> string \<Rightarrow> bool" where
  "startswith name p = (take (length p) name = p)"

text \<open>
  An environment variable whose text is passed to \<^verbatim>\<open>float\<close>: the number it denotes, or
  a text on which \<^verbatim>\<open>float\<close> raises.
\<close>

datatype env_value = Numeric real | Malformed

section \<open>Converters as the chain reports them\<close>

text \<open>
  One entry of \<^verbatim>\<open>lastnotarization.currencystate.reservecurrencies\<close>, one entry of an
  already processed \<^verbatim>\<open>reserve_currencies\<close> list, and the converter dictionary itself.
  A field of type \<open>option\<close> is \<open>None\<close> when the key is absent. The name of a converter
  is a string or JSON null: \<open>fullyqualifiedname\<close> is \<open>None\<close> without the key, \<open>Some None\<close>
  for null (Python's \<^verbatim>\<open>None\<close>) and \<open>Some (Some n)\<close> for the string \<open>n\<close>. \<open>dict_keys\<close> lists
  the keys of the dictionary in insertion order, which is what the extraction of the
  currency identifier iterates over. Fields that the source only prints are left out.
\<close>

record raw_reserve =
  rr_currencyid :: "string option"
  rr_weight :: pyval
  rr_reserves :: pyval
  rr_priceinreserve :: pyval

record held_reserve =
  hr_ticker :: "string option"
  hr_reserves :: pyval

record currency_state =
  cs_supply :: pyval
  cs_reservecurrencies :: "raw_reserve list option"

record raw_converter =
  fullyqualifiedname :: "string option option"
  rc_source_chain :: "string option"
  rc_reserve_currencies :: "held_reserve list option"
  lastnotarization :: "currency_state option option"
  rc_reserves :: "(string \<rightharpoonup> pyval) option"
  dict_keys :: "string list"

text \<open>\<^verbatim>\<open>converter.get('source_chain', 'VRSC')\<close>.\<close>

definition source_chain_of :: "raw_converter \<Rightarrow> string" where
  "source_chain_of converter =
     (case rc_source_chain converter of None \<Rightarrow> ''VRSC'' | Some c \<Rightarrow> c)"

section \<open>Bridge home-chain filter (converter\_discovery.py, lines 87--138)\<close>

definition bridge_converter_chains :: "string \<rightharpoonup> string" where
  "bridge_converter_chains = map_of
     [(''Bridge.CHIPS'', ''CHIPS''),
      (''Bridge.vARRR'', ''VARRR''),
      (''Bridge.vDEX'', ''VDEX''),
      (''Bridge.vETH'', ''VRSC'')]"

text \<open>
  The test of lines 116--131 on a name that is a string: whether a converter of this
  name is appended to \<^verbatim>\<open>filtered_converters\<close> while chain \<open>chain\<close> is scanned. For a name
  that starts with \<^verbatim>\<open>Bridge.\<close> the table is consulted with \<^verbatim>\<open>dict.get\<close>, whose result
  \<^verbatim>\<open>None\<close> for an unknown name is different from every chain name.
\<close>

definition kept_on_chain :: "string \<Rightarrow> string \<Rightarrow> bool" where
  "kept_on_chain chain converter_name =
     (if startswith converter_name ''Bridge.''
      then (let expected_chain = bridge_converter_chains converter_name in
            expected_chain = Some chain)
      else True)"

text \<open>
  Line 113, \<^verbatim>\<open>converter.get('fullyqualifiedname', '')\<close>, and the call of \<^verbatim>\<open>startswith\<close>
  on the result in line 116, which raises \<^verbatim>\<open>AttributeError\<close> when the name is null: the
  default \<^verbatim>\<open>''\<close> is used only when the key is absent.
\<close>

definition name_text :: "raw_converter \<Rightarrow> string" where
  "name_text converter =
     (case fullyqualifiedname converter of Some (Some n) \<Rightarrow> n | _ \<Rightarrow> [])"

definition null_name :: "raw_converter \<Rightarrow> bool" where
  "null_name converter \<longleftrightarrow> fullyqualifiedname converter = Some None"

text \<open>The loop of lines 112--131 with its accumulator; an exception leaves it.\<close>

fun bridge_loop :: "raw_converter list \<Rightarrow> string \<Rightarrow> raw_converter list \<Rightarrow> py_error + raw_converter list" where
  "bridge_loop [] chain filtered_converters = Inr filtered_converters"
| "bridge_loop (converter # rest) chain filtered_converters =
     (if null_name converter then Inl AttributeError
      else if kept_on_chain chain (name_text converter)
      then bridge_loop rest chain (filtered_converters @ [converter])
      else bridge_loop rest chain filtered_converters)"

text \<open>
  Lines 98 and 136--138: when the loop raises, the handler returns the listing as it
  came, with nothing filtered out.
\<close>

definition filter_bridge_converters_by_chain :: "raw_converter list \<Rightarrow> string \<Rightarrow> raw_converter list" where
  "filter_bridge_converters_by_chain converters_data chain =
     (case bridge_loop converters_data chain [] of
        Inl e \<Rightarrow> converters_data
      | Inr filtered_converters \<Rightarrow> filtered_converters)"

section \<open>Listing the converters of a chain (lines 12--50)\<close>

text \<open>
  What \<^verbatim>\<open>make_rpc_call(chain, "getcurrencyconverters", [system_id])\<close> does: it raises
  (as does a failing session lookup before it), returns \<^verbatim>\<open>None\<close>, returns a list, or
  returns something that is not a list.
\<close>

datatype 'a rpc_reply = Rpc_raises | Rpc_none | Rpc_list "'a list" | Rpc_other

definition get_all_converters :: "(string \<Rightarrow> raw_converter rpc_reply) \<Rightarrow> string \<Rightarrow> raw_converter list option" where
  "get_all_converters rpc chain =
     (case rpc chain of
        Rpc_raises \<Rightarrow> None
      | Rpc_none \<Rightarrow> None
      | Rpc_list result \<Rightarrow> (if length result > 0 then Some result else Some [])
      | Rpc_other \<Rightarrow> Some [])"

section \<open>Minimum native holdings (dict.py, lines 5--27)\<close>

text \<open>
  \<open>env\<close> is the process environment after \<^verbatim>\<open>load_dotenv\<close>. The chain's own variable is
  tried first, then \<^verbatim>\<open>DEFAULT_MIN_NATIVE_TOKENS\<close>, whose default text is \<^verbatim>\<open>"100"\<close>.
  \<^verbatim>\<open>float\<close> raises on a malformed text and nothing here catches it.
\<close>

definition env_float :: "env_value \<Rightarrow> py_error + real" where
  "env_float v = (case v of Numeric r \<Rightarrow> Inr r | Malformed \<Rightarrow> Inl ValueError)"

definition get_min_native_tokens :: "(string \<rightharpoonup> env_value) \<Rightarrow> string \<Rightarrow> py_error + real" where
  "get_min_native_tokens env chain =
     (case env (chain @ ''_MIN_NATIVE_TOKENS'') of
        Some threshold \<Rightarrow> env_float threshold
      | None \<Rightarrow>
          (let global_default =
                 (case env ''DEFAULT_MIN_NATIVE_TOKENS'' of None \<Rightarrow> Numeric 100 | Some d \<Rightarrow> d)
           in env_float global_default))"

section \<open>Native holdings of a converter (converter\_discovery.py, lines 181--246)\<close>

text \<open>
  Every \<^verbatim>\<open>return float(...)\<close> of the function sits inside its \<^verbatim>\<open>try\<close>, whose handler
  returns \<^verbatim>\<open>0.0\<close>.
\<close>

definition float_or_zero :: "pyval \<Rightarrow> real" where
  "float_or_zero v = (case py_float 0 v of Inl e \<Rightarrow> 0 | Inr r \<Rightarrow> r)"

fun first_by_ticker :: "string \<Rightarrow> held_reserve list \<Rightarrow> pyval option" where
  "first_by_ticker chain [] = None"
| "first_by_ticker chain (reserve # rest) =
     (if get_str (hr_ticker reserve) = chain then Some (hr_reserves reserve)
      else first_by_ticker chain rest)"

text \<open>
  The first loop over the raw reserves compares \<^verbatim>\<open>reserve.get('currencyid')\<close> (no
  default) with the identifier of the chain's currency, the fallback loop compares
  \<^verbatim>\<open>reserve.get('currencyid', '')\<close> with the chain name.
\<close>

fun first_by_id :: "string \<Rightarrow> raw_reserve list \<Rightarrow> pyval option" where
  "first_by_id target [] = None"
| "first_by_id target (reserve # rest) =
     (if rr_currencyid reserve = Some target then Some (rr_reserves reserve)
      else first_by_id target rest)"

fun first_by_name :: "string \<Rightarrow> raw_reserve list \<Rightarrow> pyval option" where
  "first_by_name chain [] = None"
| "first_by_name chain (reserve # rest) =
     (if get_str (rr_currencyid reserve) = chain then Some (rr_reserves reserve)
      else first_by_name chain rest)"

definition chain_currency_ids :: "string \<rightharpoonup> string" where
  "chain_currency_ids = map_of
     [(''VRSC'', ''i5w5MuNik5NtLcYmNzcvaoixooEebB6MGV''),
      (''CHIPS'', ''iJ3WZocnjG9ufv7GKUA4LijQno5gTMb7tP''),
      (''VARRR'', ''iExBJfZYK7KREDpuhj6PzZBzqMAKaFg7d2''),
      (''VDEX'', ''iHog9UCTrn95qpUBFCZ7kKz7qWdMA8MQ6N'')]"

text \<open>
  The three shapes are an \<^verbatim>\<open>if/elif/elif\<close> chain: a converter with a
  \<^verbatim>\<open>reserve_currencies\<close> key is never looked at in the other two ways. In the flat
  shape the loop after the membership test compares the same keys with the same name,
  so it finds nothing when the test has failed.
\<close>

definition get_native_token_holdings :: "raw_converter \<Rightarrow> string \<Rightarrow> real" where
  "get_native_token_holdings converter chain =
     (case rc_reserve_currencies converter of
        Some reserve_currencies \<Rightarrow>
          (case first_by_ticker chain reserve_currencies of
             Some v \<Rightarrow> float_or_zero v
           | None \<Rightarrow> 0)
      | None \<Rightarrow>
     (case lastnotarization converter of
        Some notarization \<Rightarrow>
          (let reserve_currencies =
                 (case notarization of
                    None \<Rightarrow> []
                  | Some currency_state \<Rightarrow>
                      (case cs_reservecurrencies currency_state of None \<Rightarrow> [] | Some rs \<Rightarrow> rs));
               by_id = (case chain_currency_ids chain of
                          None \<Rightarrow> None
                        | Some target_currency_id \<Rightarrow>
                            (if target_currency_id \<noteq> []
                             then first_by_id target_currency_id reserve_currencies
                             else None))
           in case by_id of
                Some v \<Rightarrow> float_or_zero v
              | None \<Rightarrow>
                  (case first_by_name chain reserve_currencies of
                     Some v \<Rightarrow> float_or_zero v
                   | None \<Rightarrow> 0))
      | None \<Rightarrow>
     (case rc_reserves converter of
        Some reserves \<Rightarrow>
          (case reserves chain of
             Some amount \<Rightarrow> float_or_zero amount
           | None \<Rightarrow> 0)
      | None \<Rightarrow> 0)))"

section \<open>Holdings filter (converter\_discovery.py, lines 140--179)\<close>

text \<open>
  The loop of lines 156--171 with its two accumulators. The only call in it that can
  raise is \<^verbatim>\<open>get_min_native_tokens\<close>; the exception leaves the loop.
\<close>

fun holdings_loop ::
  "(string \<rightharpoonup> env_value) \<Rightarrow> raw_converter list \<Rightarrow> raw_converter list \<Rightarrow> raw_converter list
     \<Rightarrow> py_error + (raw_converter list \<times> raw_converter list)" where
  "holdings_loop env [] included_converters excluded_converters =
     Inr (included_converters, excluded_converters)"
| "holdings_loop env (converter # rest) included_converters excluded_converters =
     (let source_chain = source_chain_of converter in
      case get_min_native_tokens env source_chain of
        Inl e \<Rightarrow> Inl e
      | Inr min_threshold \<Rightarrow>
          (let native_holdings = get_native_token_holdings converter source_chain in
           if native_holdings \<ge> min_threshold
           then holdings_loop env rest (included_converters @ [converter]) excluded_converters
           else holdings_loop env rest included_converters (excluded_converters @ [converter])))"

text \<open>Lines 150 and 177--179: on any exception the input comes back as the included list.\<close>

definition filter_converters_by_native_holdings ::
  "(string \<rightharpoonup> env_value) \<Rightarrow> raw_converter list \<Rightarrow> raw_converter list \<times> raw_converter list" where
  "filter_converters_by_native_holdings env converters_data =
     (case holdings_loop env converters_data [] [] of
        Inl e \<Rightarrow> (converters_data, [])
      | Inr result \<Rightarrow> result)"

section \<open>Extracted converter information (converter\_discovery.py, lines 248--309)\<close>

text \<open>
  \<open>mapping\<close> is the table of \<^verbatim>\<open>currency_mappings.json\<close>: for an identifier with a
  (non-empty dictionary) entry, the entry's \<^verbatim>\<open>vrsc_symbol\<close>, which may be \<^verbatim>\<open>None\<close>.
  A ticker is therefore a \<open>string option\<close>, \<open>None\<close> being Python's \<^verbatim>\<open>None\<close>.
\<close>

definition get_ticker_by_id :: "(string \<rightharpoonup> string option) \<Rightarrow> string \<Rightarrow> string option" where
  "get_ticker_by_id mapping cid =
     (case mapping cid of
        Some vrsc_symbol \<Rightarrow> vrsc_symbol
      | None \<Rightarrow> Some cid)"

record info_reserve =
  ir_currency_id :: string
  ir_ticker :: "string option"
  ir_weight :: real
  ir_reserves :: real
  ir_price_in_reserve :: real

record converter_info =
  ci_name :: "string option"
  ci_currency_id :: "string option"
  ci_supply :: "real option"
  ci_reserve_currencies :: "info_reserve list"
  ci_source_chain :: string
  ci_chain :: string
  ci_currencies :: "string list"
  ci_total_liquidity_usd :: real
  ci_raw_data :: raw_converter

text \<open>
  The loop of lines 291--304 runs inside the \<^verbatim>\<open>try\<close> of the function: when a
  \<^verbatim>\<open>float\<close> raises, the entries appended so far stay and the rest is skipped.
\<close>

fun extract_reserves ::
  "(string \<rightharpoonup> string option) \<Rightarrow> raw_reserve list \<Rightarrow> info_reserve list \<times> string list
     \<Rightarrow> info_reserve list \<times> string list" where
  "extract_reserves mapping [] acc = acc"
| "extract_reserves mapping (rc # rest) (reserves, currencies) =
     (let ticker = get_ticker_by_id mapping (get_str (rr_currencyid rc)) in
      case py_float 0 (rr_weight rc) of
        Inl e \<Rightarrow> (reserves, currencies)
      | Inr w \<Rightarrow>
     (case py_float 0 (rr_reserves rc) of
        Inl e \<Rightarrow> (reserves, currencies)
      | Inr r \<Rightarrow>
     (case py_float 0 (rr_priceinreserve rc) of
        Inl e \<Rightarrow> (reserves, currencies)
      | Inr p \<Rightarrow>
          extract_reserves mapping rest
            (reserves @ [\<lparr>ir_currency_id = get_str (rr_currencyid rc), ir_ticker = ticker,
                           ir_weight = w, ir_reserves = r, ir_price_in_reserve = p\<rparr>],
             (case ticker of
                Some t \<Rightarrow> (if t \<noteq> [] then currencies @ [t] else currencies)
              | None \<Rightarrow> currencies)))))"

definition extract_converter_info :: "(string \<rightharpoonup> string option) \<Rightarrow> raw_converter \<Rightarrow> converter_info" where
  "extract_converter_info mapping converter =
     (let source = source_chain_of converter;
          info = \<lparr>ci_name = (case fullyqualifiedname converter of None \<Rightarrow> None | Some v \<Rightarrow> v),
                  ci_currency_id =
                    find (\<lambda>key. key \<notin> set [''fullyqualifiedname'', ''height'', ''output'', ''lastnotarization''])
                      (dict_keys converter),
                  ci_supply = None,
                  ci_reserve_currencies = [],
                  ci_source_chain = source,
                  ci_chain = source,
                  ci_currencies = [],
                  ci_total_liquidity_usd = 0,
                  ci_raw_data = converter\<rparr>
      in case lastnotarization converter of
           Some (Some currency_state) \<Rightarrow>
             (case cs_supply currency_state of
                Junk \<Rightarrow> info
              | supply_value \<Rightarrow>
                  (let info1 = (case supply_value of
                                  Num s \<Rightarrow> info\<lparr>ci_supply := Some s\<rparr>
                                | _ \<Rightarrow> info)
                   in case cs_reservecurrencies currency_state of
                        None \<Rightarrow> info1
                      | Some rcs \<Rightarrow>
                          (let (reserves, currencies) = extract_reserves mapping rcs ([], [])
                           in info1\<lparr>ci_reserve_currencies := reserves,
                                    ci_currencies := currencies\<rparr>)))
         | _ \<Rightarrow> info)"

section \<open>Multi-chain discovery (converter\_discovery.py, lines 311--426)\<close>

record chain_record =
  cr_count :: nat
  cr_converters :: "raw_converter list"
  cr_total_found :: nat
  cr_bridge_filtered :: nat

record discovery =
  active_converters :: "converter_info list"
  excluded_converters :: "converter_info list"
  total_count :: nat
  active_count :: nat
  excluded_count :: nat
  block_height :: int
  chain_results :: "string \<rightharpoonup> chain_record"
  error_msg :: "string option"

text \<open>Line 352, \<^verbatim>\<open>converter['source_chain'] = chain\<close>: a new key goes to the end.\<close>

definition tag_source_chain :: "string \<Rightarrow> raw_converter \<Rightarrow> raw_converter" where
  "tag_source_chain chain converter =
     converter\<lparr>rc_source_chain := Some chain,
               dict_keys := (if ''source_chain'' \<in> set (dict_keys converter)
                             then dict_keys converter
                             else dict_keys converter @ [''source_chain''])\<rparr>"

text \<open>
  What a chain's listing contributes when \<^verbatim>\<open>if raw_converters:\<close> (line 346) is asked:
  \<^verbatim>\<open>None\<close> and the empty list both count as nothing.
\<close>

definition reported :: "(string \<Rightarrow> raw_converter rpc_reply) \<Rightarrow> string \<Rightarrow> raw_converter list" where
  "reported rpc chain = (case get_all_converters rpc chain of None \<Rightarrow> [] | Some cs \<Rightarrow> cs)"

text \<open>
  The share of one chain (lines 344--368): the converters it adds to
  \<^verbatim>\<open>all_raw_converters\<close> and its entry in \<^verbatim>\<open>chain_results\<close>. \<^verbatim>\<open>if raw_converters:\<close>
  is false for \<^verbatim>\<open>None\<close> and for the empty list.
\<close>

definition scan_chain ::
  "(string \<Rightarrow> raw_converter rpc_reply) \<Rightarrow> string \<Rightarrow> raw_converter list \<times> chain_record" where
  "scan_chain rpc chain =
     (case get_all_converters rpc chain of
        Some (c # cs) \<Rightarrow>
          (let raw_converters = c # cs;
               filtered_converters =
                 map (tag_source_chain chain) (filter_bridge_converters_by_chain raw_converters chain)
           in (filtered_converters,
               \<lparr>cr_count = length filtered_converters,
                cr_converters = filtered_converters,
                cr_total_found = length raw_converters,
                cr_bridge_filtered = length raw_converters - length filtered_converters\<rparr>))
      | _ \<Rightarrow> ([], \<lparr>cr_count = 0, cr_converters = [], cr_total_found = 0, cr_bridge_filtered = 0\<rparr>))"

text \<open>The loop of lines 341--369 over the chain list, threading the two accumulators.\<close>

fun discover_loop ::
  "(string \<Rightarrow> raw_converter rpc_reply) \<Rightarrow> string list
     \<Rightarrow> raw_converter list \<times> (string \<rightharpoonup> chain_record)
     \<Rightarrow> raw_converter list \<times> (string \<rightharpoonup> chain_record)" where
  "discover_loop rpc [] state = state"
| "discover_loop rpc (chain # rest) (all_raw_converters, results) =
     (let (filtered_converters, record) = scan_chain rpc chain
      in discover_loop rpc rest
           (all_raw_converters @ filtered_converters, results(chain \<mapsto> record)))"

text \<open>
  \<open>height\<close> is the pinned block height of the session. Writing the result to disk
  (lines 419--424) does not change what is returned.
\<close>

definition discover_active_converters ::
  "(string \<Rightarrow> raw_converter rpc_reply) \<Rightarrow> (string \<rightharpoonup> env_value) \<Rightarrow> (string \<rightharpoonup> string option)
     \<Rightarrow> int \<Rightarrow> string list option \<Rightarrow> discovery" where
  "discover_active_converters rpc env mapping height chains_arg =
     (let chains = (case chains_arg of None \<Rightarrow> [''VRSC''] | Some cs \<Rightarrow> cs);
          (all_raw_converters, results) = discover_loop rpc chains ([], Map.empty)
      in if all_raw_converters = []
         then \<lparr>active_converters = [], excluded_converters = [],
               total_count = 0, active_count = 0, excluded_count = 0,
               block_height = height, chain_results = results,
               error_msg = Some ''Failed to fetch converters from any chain''\<rparr>
         else (let (filtered_converters, excluded) =
                     filter_converters_by_native_holdings env all_raw_converters;
                   active_converter_info = map (extract_converter_info mapping) filtered_converters;
                   excluded_converter_info = map (extract_converter_info mapping) excluded
               in \<lparr>active_converters = active_converter_info,
                   excluded_converters = excluded_converter_info,
                   total_count = length all_raw_converters,
                   active_count = length active_converter_info,
                   excluded_count = length excluded_converter_info,
                   block_height = height, chain_results = results,
                   error_msg = None\<rparr>))"

section \<open>Liquidity calculator (liquidity\_calculator.py)\<close>

text \<open>
  One \<^verbatim>\<open>estimateconversion\<close> request and what comes back from
  \<^verbatim>\<open>make_rpc_call(chain, 'estimateconversion', [params])\<close>: the call raises, the result
  is \<^verbatim>\<open>None\<close> (or empty), the result has no \<^verbatim>\<open>estimatedcurrencyout\<close>, the field is
  there and \<^verbatim>\<open>float\<close> raises on it, or the field is a number.
\<close>

record conversion_params =
  cp_currency :: string
  cp_convertto :: string
  cp_amount :: nat
  cp_via :: "string option"

datatype est_reply = Est_raises | Est_none | Est_no_field | Est_bad_field | Estimated real

type_synonym est_rpc = "string \<Rightarrow> conversion_params \<Rightarrow> est_reply"

text \<open>The three request dictionaries that the module builds (lines 30, 68, 158, 170, 182).\<close>

definition vrsc_dai_params :: conversion_params where
  "vrsc_dai_params =
     \<lparr>cp_currency = ''VRSC'', cp_convertto = ''DAI.vETH'', cp_amount = 1,
      cp_via = Some ''Bridge.vETH''\<rparr>"

definition bridge_name_of :: "string \<Rightarrow> string" where
  "bridge_name_of chain =
     (if chain = ''CHIPS'' then ''Bridge.CHIPS''
      else if chain = ''VARRR'' then ''Bridge.vARRR''
      else if chain = ''VDEX'' then ''Bridge.vDEX''
      else ''Bridge.'' @ chain)"

definition chain_vrsc_params :: "string \<Rightarrow> conversion_params" where
  "chain_vrsc_params chain =
     \<lparr>cp_currency = chain, cp_convertto = ''VRSC'', cp_amount = 1,
      cp_via = Some (bridge_name_of chain)\<rparr>"

definition native_params :: "string \<Rightarrow> string \<Rightarrow> conversion_params" where
  "native_params converter_id native_currency =
     \<lparr>cp_currency = converter_id, cp_convertto = native_currency, cp_amount = 1, cp_via = None\<rparr>"

text \<open>Lines 23--42. Every failure is answered with \<^verbatim>\<open>0.0\<close>.\<close>

definition get_vrsc_usd_price_cached :: "est_rpc \<Rightarrow> real" where
  "get_vrsc_usd_price_cached rpc =
     (case rpc ''VRSC'' vrsc_dai_params of
        Estimated vrsc_dai_rate \<Rightarrow> vrsc_dai_rate
      | _ \<Rightarrow> 0)"

text \<open>Lines 44--81.\<close>

definition get_chain_to_vrsc_rate :: "est_rpc \<Rightarrow> string \<Rightarrow> real" where
  "get_chain_to_vrsc_rate rpc chain =
     (case rpc chain (chain_vrsc_params chain) of
        Estimated rate \<Rightarrow> rate
      | _ \<Rightarrow> 0)"

text \<open>Lines 83--115.\<close>

definition get_chain_usd_price :: "est_rpc \<Rightarrow> string \<Rightarrow> real" where
  "get_chain_usd_price rpc chain =
     (let chain_to_vrsc_rate = get_chain_to_vrsc_rate rpc chain in
      if chain_to_vrsc_rate \<le> 0 then 0
      else (let vrsc_usd_price = get_vrsc_usd_price_cached rpc in
            if vrsc_usd_price \<le> 0 then 0
            else chain_to_vrsc_rate * vrsc_usd_price))"

text \<open>
  The first hop of \<^verbatim>\<open>get_converter_liquidity\<close> (lines 149--189): \<^verbatim>\<open>native_ratio\<close>
  starts at 0 and is overwritten only by a reply that carries a number. The three
  branches are kept as the source has them.
\<close>

definition native_ratio_of :: "est_rpc \<Rightarrow> string \<Rightarrow> string \<Rightarrow> string \<Rightarrow> real" where
  "native_ratio_of rpc converter_name converter_id source_chain =
     (if source_chain \<in> set [''VARRR'', ''VDEX''] \<and> startswith converter_name ''Bridge.''
      then (let native_currency = source_chain in
            case rpc source_chain (native_params converter_id native_currency) of
              Estimated r \<Rightarrow> r | _ \<Rightarrow> 0)
      else if source_chain = ''VRSC''
      then (case rpc ''VRSC'' (native_params converter_id ''VRSC'') of
              Estimated r \<Rightarrow> r | _ \<Rightarrow> 0)
      else (let native_currency = source_chain in
            case rpc source_chain (native_params converter_id native_currency) of
              Estimated r \<Rightarrow> r | _ \<Rightarrow> 0))"

text \<open>The second hop (lines 195--201).\<close>

definition native_usd_price_of :: "est_rpc \<Rightarrow> string \<Rightarrow> real" where
  "native_usd_price_of rpc source_chain =
     (if source_chain = ''VRSC'' then get_vrsc_usd_price_cached rpc
      else get_chain_usd_price rpc source_chain)"

text \<open>
  Lines 117--225. The converter is the first entry of the data whose name is the one
  asked for. Its supply is \<^verbatim>\<open>None\<close> when the discovery found none, and \<^verbatim>\<open>float(None)\<close>
  raises into the handler of the function, which returns \<^verbatim>\<open>0.0\<close>.
\<close>

definition get_converter_liquidity ::
  "est_rpc \<Rightarrow> string \<Rightarrow> converter_info list \<Rightarrow> real \<Rightarrow> real" where
  "get_converter_liquidity rpc converter_name converters_data min_liquidity_threshold =
     (case find (\<lambda>conv. ci_name conv = Some converter_name) converters_data of
        None \<Rightarrow> 0
      | Some converter_info \<Rightarrow>
     (case ci_supply converter_info of
        None \<Rightarrow> 0
      | Some supply \<Rightarrow>
     (case ci_currency_id converter_info of
        None \<Rightarrow> 0
      | Some converter_id \<Rightarrow>
          if converter_id = [] \<or> supply \<le> 0 then 0
          else (let source_chain = ci_source_chain converter_info;
                    native_ratio = native_ratio_of rpc converter_name converter_id source_chain
                in if native_ratio \<le> 0 then 0
                   else (let native_usd_price = native_usd_price_of rpc source_chain
                         in if native_usd_price \<le> 0 then 0
                            else (let total_liquidity = supply * native_ratio * native_usd_price
                                  in if supply < min_liquidity_threshold then 0
                                     else total_liquidity))))))"

text \<open>
  The loop of lines 266--275: the total of all weights, and for each side of the pair
  the weight of the last reserve entry with that ticker (0 when there is none). A
  currency is a \<open>string option\<close> because a ticker can be \<^verbatim>\<open>None\<close>, and Python compares
  them with \<^verbatim>\<open>==\<close>.
\<close>

fun weights_loop ::
  "string option \<Rightarrow> string option \<Rightarrow> info_reserve list \<Rightarrow> real \<times> real \<times> real \<Rightarrow> real \<times> real \<times> real" where
  "weights_loop base_currency target_currency [] acc = acc"
| "weights_loop base_currency target_currency (rc # rest) (base_weight, target_weight, total_weight) =
     (let weight = ir_weight rc;
          currency_ticker = ir_ticker rc
      in weights_loop base_currency target_currency rest
           (if currency_ticker = base_currency then weight else base_weight,
            if currency_ticker = target_currency then weight else target_weight,
            total_weight + weight))"

text \<open>Lines 227--306; the liquidity is asked for with the default floor of 1000.\<close>

definition get_pair_liquidity ::
  "est_rpc \<Rightarrow> string \<Rightarrow> string option \<Rightarrow> string option \<Rightarrow> converter_info list \<Rightarrow> real" where
  "get_pair_liquidity rpc converter_name base_currency target_currency converters_data =
     (let total_liquidity = get_converter_liquidity rpc converter_name converters_data 1000 in
      if total_liquidity \<le> 0 then 0
      else
     (case find (\<lambda>conv. ci_name conv = Some converter_name) converters_data of
        None \<Rightarrow> 0
      | Some converter_info \<Rightarrow>
          (let (base_weight, target_weight, total_weight) =
                 weights_loop base_currency target_currency
                   (ci_reserve_currencies converter_info) (0, 0, 0);
               base_is_converter = (base_currency = Some converter_name);
               target_is_converter = (target_currency = Some converter_name);
               is_special_case = (base_is_converter \<or> target_is_converter)
           in if is_special_case
              then (let non_converter_weight =
                          (if base_is_converter then target_weight else base_weight)
                    in if non_converter_weight > 0 \<and> total_weight > 0
                       then (let weight_fraction = non_converter_weight / total_weight
                             in (weight_fraction * total_liquidity) * 2)
                       else 0)
              else (if base_weight > 0 \<and> target_weight > 0 \<and> total_weight > 0
                    then (let combined_weight_fraction = (base_weight + target_weight) / total_weight
                          in combined_weight_fraction * total_liquidity)
                    else 0))))"

section \<open>Pair extraction (data\_integration.py)\<close>

text \<open>\<^verbatim>\<open>name.endswith(suffix)\<close>.\<close>

definition endswith :: "string \<Rightarrow> string \<Rightarrow> bool" where
  "endswith name suffix =
     (length suffix \<le> length name \<and> drop (length name - length suffix) name = suffix)"

text \<open>Lines 48--74.\<close>

definition get_chain_for_converter :: "string \<Rightarrow> string" where
  "get_chain_for_converter converter_name =
     (case map_of [(''Bridge.vARRR'', ''VARRR''), (''Bridge.vDEX'', ''VDEX''),
                   (''Bridge.vCHIPS'', ''CHIPS''), (''Bridge.CHIPS'', ''CHIPS'')] converter_name of
        Some chain \<Rightarrow> chain
      | None \<Rightarrow>
          (if endswith converter_name ''.CHIPS'' then ''CHIPS''
           else if endswith converter_name ''.VARRR'' then ''VARRR''
           else if endswith converter_name ''.VDEX'' then ''VDEX''
           else ''VRSC''))"

text \<open>
  Lines 36--46. An environment variable that is passed to \<^verbatim>\<open>int\<close> is the integer it
  denotes or a text on which \<^verbatim>\<open>int\<close> raises. The \<^verbatim>\<open>name\<close> entry of the configuration
  cannot fail and is read by nothing below; it is left out.
\<close>

datatype env_int = Integral int | Not_integral

record chain_config =
  blocks_per_day :: int
  block_time_seconds :: int

definition env_int_or :: "(string \<rightharpoonup> env_int) \<Rightarrow> string \<Rightarrow> int \<Rightarrow> py_error + int" where
  "env_int_or ienv key d =
     (case ienv key of
        None \<Rightarrow> Inr d
      | Some (Integral n) \<Rightarrow> Inr n
      | Some Not_integral \<Rightarrow> Inl ValueError)"

definition get_chain_config :: "(string \<rightharpoonup> env_int) \<Rightarrow> string \<Rightarrow> py_error + chain_config" where
  "get_chain_config ienv chain =
     (case env_int_or ienv (chain @ ''_BLOCKS_PER_DAY'') 1440 of
        Inl e \<Rightarrow> Inl e
      | Inr bpd \<Rightarrow>
     (case env_int_or ienv (chain @ ''_BLOCK_TIME_SECONDS'') 60 of
        Inl e \<Rightarrow> Inl e
      | Inr bts \<Rightarrow> Inr \<lparr>blocks_per_day = bpd, block_time_seconds = bts\<rparr>))"

text \<open>
  One entry of \<^verbatim>\<open>volumepairs\<close>, and one item of the list that \<^verbatim>\<open>getcurrencystate\<close>
  returns: \<open>si_conversiondata\<close> is \<open>None\<close> without the key, \<open>Some None\<close> when the
  conversion data is empty or has no \<^verbatim>\<open>volumepairs\<close>.
\<close>

record volume_pair =
  vp_currency :: "string option"
  vp_convertto :: "string option"
  vp_volume :: "real option"
  vp_open :: "real option"
  vp_high :: "real option"
  vp_low :: "real option"
  vp_close :: "real option"

record state_item =
  si_conversiondata :: "volume_pair list option option"
  si_totalvolume :: "real option"

datatype info_reply = Info_raises | Info_none | Info_no_blocks | Info_blocks int

type_synonym state_rpc =
  "string \<Rightarrow> string \<Rightarrow> int \<times> int \<times> int \<Rightarrow> string option \<Rightarrow> state_item rpc_reply"

text \<open>The scan of lines 145--150: the last item that has a key wins.\<close>

fun scan_items ::
  "state_item list \<Rightarrow> volume_pair list option option \<times> real option
     \<Rightarrow> volume_pair list option option \<times> real option" where
  "scan_items [] acc = acc"
| "scan_items (item # rest) (conversion_data, total_volume) =
     scan_items rest
       (case si_conversiondata item of None \<Rightarrow> conversion_data | Some cd \<Rightarrow> Some cd,
        case si_totalvolume item of None \<Rightarrow> total_volume | Some tv \<Rightarrow> Some tv)"

text \<open>
  Lines 76--160. The two RPC calls and the configuration lookup are outside the
  \<^verbatim>\<open>try\<close> of the function, so what they raise reaches the caller. The block range sent
  is computed from the chain's current height; the range passed in is not used. An
  empty result list is falsy and gives \<^verbatim>\<open>(None, None)\<close>.
\<close>

definition get_currency_volume_info ::
  "(string \<rightharpoonup> env_int) \<Rightarrow> (string \<Rightarrow> info_reply) \<Rightarrow> state_rpc
     \<Rightarrow> string \<Rightarrow> int \<Rightarrow> int \<Rightarrow> int \<Rightarrow> string option \<Rightarrow> string
     \<Rightarrow> py_error + (volume_pair list \<times> real option) option" where
  "get_currency_volume_info ienv getinfo getcurrencystate
       currency from_block end_block interval volume_currency target_chain_arg =
     (let target_chain = (if target_chain_arg = [] then get_chain_for_converter currency
                          else target_chain_arg)
      in case get_chain_config ienv target_chain of
           Inl e \<Rightarrow> Inl e
         | Inr chain_config \<Rightarrow>
             (let chain_blocks_per_day = blocks_per_day chain_config
              in case getinfo target_chain of
                   Info_raises \<Rightarrow> Inl RpcError
                 | Info_none \<Rightarrow> Inr None
                 | Info_no_blocks \<Rightarrow> Inr None
                 | Info_blocks current_height \<Rightarrow>
                     (let calculated_start_block = current_height - chain_blocks_per_day;
                          calculated_end_block = current_height
                      in case getcurrencystate target_chain currency
                                (calculated_start_block, calculated_end_block, chain_blocks_per_day)
                                volume_currency of
                           Rpc_raises \<Rightarrow> Inl RpcError
                         | Rpc_none \<Rightarrow> Inr None
                         | Rpc_other \<Rightarrow> Inr None
                         | Rpc_list result \<Rightarrow>
                             (if result = [] then Inr None
                              else (case scan_items result (None, None) of
                                      (Some (Some volume_pairs), total_volume) \<Rightarrow>
                                        Inr (Some (volume_pairs, total_volume))
                                    | _ \<Rightarrow> Inr None)))))"

text \<open>Lines 162--189.\<close>

fun find_pair_volume :: "volume_pair list \<Rightarrow> string option \<Rightarrow> string option \<Rightarrow> real" where
  "find_pair_volume [] from_currency to_currency = 0"
| "find_pair_volume (pair # rest) from_currency to_currency =
     (if vp_currency pair = from_currency \<and> vp_convertto pair = to_currency
      then (case vp_volume pair of None \<Rightarrow> 0 | Some v \<Rightarrow> v)
      else find_pair_volume rest from_currency to_currency)"

record ohlc =
  ohlc_open :: real
  ohlc_high :: real
  ohlc_low :: real
  ohlc_close :: real

definition or_zero :: "real option \<Rightarrow> real" where
  "or_zero v = (case v of None \<Rightarrow> 0 | Some x \<Rightarrow> x)"

fun find_pair_ohlc :: "volume_pair list \<Rightarrow> string option \<Rightarrow> string option \<Rightarrow> ohlc" where
  "find_pair_ohlc [] from_currency to_currency =
     \<lparr>ohlc_open = 0, ohlc_high = 0, ohlc_low = 0, ohlc_close = 0\<rparr>"
| "find_pair_ohlc (pair # rest) from_currency to_currency =
     (if vp_currency pair = from_currency \<and> vp_convertto pair = to_currency
      then \<lparr>ohlc_open = or_zero (vp_open pair), ohlc_high = or_zero (vp_high pair),
            ohlc_low = or_zero (vp_low pair), ohlc_close = or_zero (vp_close pair)\<rparr>
      else find_pair_ohlc rest from_currency to_currency)"

text \<open>Lines 252--285. The converter's own token comes first, then every reserve.\<close>

record currency_entry =
  cur_symbol :: "string option"
  cur_currency_id :: string

definition get_converter_currencies :: "converter_info \<Rightarrow> currency_entry list" where
  "get_converter_currencies converter =
     (case ci_name converter of
        Some converter_name \<Rightarrow>
          (if converter_name \<noteq> []
           then [\<lparr>cur_symbol = Some converter_name,
                   cur_currency_id = get_str (ci_currency_id converter)\<rparr>]
           else [])
      | None \<Rightarrow> [])
     @ map (\<lambda>reserve. \<lparr>cur_symbol = ir_ticker reserve, cur_currency_id = ir_currency_id reserve\<rparr>)
         (ci_reserve_currencies converter)"

fun get_currency_id_by_symbol :: "currency_entry list \<Rightarrow> string option \<Rightarrow> string" where
  "get_currency_id_by_symbol [] symbol = []"
| "get_currency_id_by_symbol (entry # rest) symbol =
     (if cur_symbol entry = symbol then cur_currency_id entry
      else get_currency_id_by_symbol rest symbol)"

text \<open>
  The dictionary built for one (base, target) combination at lines 369--429, or nothing
  when the volume test of line 400 fails. \<open>all_volume_data\<close> maps a currency to the
  volume pairs (and total volume) that the query with this currency as volume currency
  returned. A \<^verbatim>\<open>None\<close> symbol is printed as \<^verbatim>\<open>None\<close> by the f-string of the symbol.
\<close>

record pair_data =
  pd_converter :: string
  pd_base_currency :: "string option"
  pd_target_currency :: "string option"
  pd_base_currency_id :: string
  pd_target_currency_id :: string
  pd_symbol :: string
  pd_base_volume :: real
  pd_target_volume :: real
  pd_base_volume_24h :: real
  pd_target_volume_24h :: real
  pd_last_price :: real
  pd_open :: real
  pd_high :: real
  pd_low :: real
  pd_last :: real
  pd_raw_base_volume :: real
  pd_raw_target_volume :: real
  pd_pair_liquidity_usd :: real
  pd_has_volume :: bool

definition symbol_text :: "string option \<Rightarrow> string" where
  "symbol_text v = (case v of None \<Rightarrow> ''None'' | Some s \<Rightarrow> s)"

type_synonym volume_data = "string option \<rightharpoonup> volume_pair list \<times> real option"

definition candidate_pair ::
  "est_rpc \<Rightarrow> converter_info list \<Rightarrow> string \<Rightarrow> currency_entry list \<Rightarrow> volume_data
     \<Rightarrow> string option \<Rightarrow> string option \<Rightarrow> pair_data option" where
  "candidate_pair rpc converters converter_name currencies all_volume_data
       base_currency target_currency =
     (let base_data = all_volume_data base_currency;
          raw_base_volume =
            (case base_data of
               None \<Rightarrow> 0
             | Some (volume_pairs, tv) \<Rightarrow> find_pair_volume volume_pairs base_currency target_currency);
          target_data = all_volume_data target_currency;
          raw_target_volume =
            (case target_data of
               None \<Rightarrow> 0
             | Some (volume_pairs, tv) \<Rightarrow> find_pair_volume volume_pairs base_currency target_currency);
          ohlc_data =
            (case target_data of
               None \<Rightarrow> \<lparr>ohlc_open = 0, ohlc_high = 0, ohlc_low = 0, ohlc_close = 0\<rparr>
             | Some (volume_pairs, tv) \<Rightarrow> find_pair_ohlc volume_pairs base_currency target_currency);
          calculated_base_volume = raw_base_volume;
          calculated_target_volume = raw_target_volume
      in if calculated_base_volume > 0 \<or> calculated_target_volume > 0
         then Some
           \<lparr>pd_converter = converter_name,
            pd_base_currency = base_currency,
            pd_target_currency = target_currency,
            pd_base_currency_id = get_currency_id_by_symbol currencies base_currency,
            pd_target_currency_id = get_currency_id_by_symbol currencies target_currency,
            pd_symbol = symbol_text base_currency @ ''-'' @ symbol_text target_currency,
            pd_base_volume = calculated_base_volume,
            pd_target_volume = calculated_target_volume,
            pd_base_volume_24h = calculated_base_volume,
            pd_target_volume_24h = calculated_target_volume,
            pd_last_price = ohlc_close ohlc_data,
            pd_open = ohlc_open ohlc_data,
            pd_high = ohlc_high ohlc_data,
            pd_low = ohlc_low ohlc_data,
            pd_last = ohlc_close ohlc_data,
            pd_raw_base_volume = raw_base_volume,
            pd_raw_target_volume = raw_target_volume,
            pd_pair_liquidity_usd =
              get_pair_liquidity rpc converter_name base_currency target_currency converters,
            pd_has_volume = True\<rparr>
         else None)"

text \<open>
  \<^verbatim>\<open>apply_universal_price_inversion\<close> lives in a module that is not part of the sources
  at hand; it is the parameter \<open>invert\<close>, which may raise. The two nested loops of lines
  365--434 append to \<^verbatim>\<open>all_pairs\<close>; \<open>mk\<close> is \<open>candidate_pair\<close> for the converter at hand.
\<close>

fun targets_loop ::
  "(pair_data \<Rightarrow> py_error + 'p) \<Rightarrow> (string option \<Rightarrow> string option \<Rightarrow> pair_data option)
     \<Rightarrow> string option \<Rightarrow> string option list \<Rightarrow> 'p list \<Rightarrow> py_error + 'p list" where
  "targets_loop invert mk base_currency [] all_pairs = Inr all_pairs"
| "targets_loop invert mk base_currency (target_currency # rest) all_pairs =
     (if base_currency \<noteq> target_currency
      then (case mk base_currency target_currency of
              None \<Rightarrow> targets_loop invert mk base_currency rest all_pairs
            | Some pair \<Rightarrow>
                (case invert pair of
                   Inl e \<Rightarrow> Inl e
                 | Inr inverted_pair_data \<Rightarrow>
                     targets_loop invert mk base_currency rest (all_pairs @ [inverted_pair_data])))
      else targets_loop invert mk base_currency rest all_pairs)"

fun bases_loop ::
  "(pair_data \<Rightarrow> py_error + 'p) \<Rightarrow> (string option \<Rightarrow> string option \<Rightarrow> pair_data option)
     \<Rightarrow> string option list \<Rightarrow> string option list \<Rightarrow> 'p list \<Rightarrow> py_error + 'p list" where
  "bases_loop invert mk [] currency_symbols all_pairs = Inr all_pairs"
| "bases_loop invert mk (base_currency # rest) currency_symbols all_pairs =
     (case targets_loop invert mk base_currency currency_symbols all_pairs of
        Inl e \<Rightarrow> Inl e
      | Inr all_pairs' \<Rightarrow> bases_loop invert mk rest currency_symbols all_pairs')"

text \<open>
  The loop of lines 347--362: one volume query per currency of the converter, \<open>query\<close>
  being \<^verbatim>\<open>get_currency_volume_info\<close> with everything but the volume currency fixed. A
  later entry for the same symbol replaces the earlier one.
\<close>

fun volume_loop ::
  "(string option \<Rightarrow> py_error + (volume_pair list \<times> real option) option)
     \<Rightarrow> currency_entry list \<Rightarrow> volume_data \<Rightarrow> py_error + volume_data" where
  "volume_loop query [] all_volume_data = Inr all_volume_data"
| "volume_loop query (currency_info # rest) all_volume_data =
     (let currency_symbol = cur_symbol currency_info in
      case query currency_symbol of
        Inl e \<Rightarrow> Inl e
      | Inr None \<Rightarrow> volume_loop query rest all_volume_data
      | Inr (Some found) \<Rightarrow> volume_loop query rest (all_volume_data(currency_symbol \<mapsto> found)))"

text \<open>
  The body of the loop over the converters (lines 323--434). A converter whose name is
  \<^verbatim>\<open>None\<close> makes \<^verbatim>\<open>get_chain_for_converter\<close> raise on \<^verbatim>\<open>endswith\<close>.
\<close>

definition process_converter ::
  "(string \<rightharpoonup> env_int) \<Rightarrow> (string \<Rightarrow> info_reply) \<Rightarrow> state_rpc \<Rightarrow> est_rpc
     \<Rightarrow> (pair_data \<Rightarrow> py_error + 'p) \<Rightarrow> int \<Rightarrow> converter_info list
     \<Rightarrow> converter_info \<Rightarrow> 'p list \<Rightarrow> py_error + 'p list" where
  "process_converter ienv getinfo getcurrencystate rpc invert current_block converters
       converter all_pairs =
     (let currencies = get_converter_currencies converter;
          currency_symbols = map cur_symbol currencies
      in case ci_name converter of
           None \<Rightarrow> Inl AttributeError
         | Some converter_name \<Rightarrow>
             (let target_chain = get_chain_for_converter converter_name
              in case get_chain_config ienv target_chain of
                   Inl e \<Rightarrow> Inl e
                 | Inr chain_config \<Rightarrow>
                     (let bpd = blocks_per_day chain_config;
                          start_block = current_block - bpd;
                          end_block = current_block
                      in if length currencies < 2 then Inr all_pairs
                         else (case volume_loop
                                      (\<lambda>currency_symbol.
                                         get_currency_volume_info ienv getinfo getcurrencystate
                                           converter_name start_block end_block bpd
                                           currency_symbol target_chain)
                                      currencies Map.empty of
                                 Inl e \<Rightarrow> Inl e
                               | Inr all_volume_data \<Rightarrow>
                                   bases_loop invert
                                     (candidate_pair rpc converters converter_name currencies
                                        all_volume_data)
                                     currency_symbols currency_symbols all_pairs))))"

fun converters_loop ::
  "(converter_info \<Rightarrow> 'p list \<Rightarrow> py_error + 'p list) \<Rightarrow> converter_info list \<Rightarrow> 'p list
     \<Rightarrow> py_error + 'p list" where
  "converters_loop body [] all_pairs = Inr all_pairs"
| "converters_loop body (converter # rest) all_pairs =
     (case body converter all_pairs of
        Inl e \<Rightarrow> Inl e
      | Inr all_pairs' \<Rightarrow> converters_loop body rest all_pairs')"

text \<open>
  Lines 287--470. \<open>converters\<close> is what \<^verbatim>\<open>load_converter_data\<close> returned and
  \<open>current_block\<close> the pinned height. Of the returned dictionary the model keeps the
  success flag, the pair list and the two counts, which the error results do not have.
\<close>

record 'p extraction =
  ex_success :: bool
  ex_pairs :: "'p list"
  ex_total_converters :: "nat option"
  ex_total_pairs :: "nat option"

definition extract_all_pairs_data ::
  "(string \<rightharpoonup> env_int) \<Rightarrow> (string \<Rightarrow> info_reply) \<Rightarrow> state_rpc \<Rightarrow> est_rpc
     \<Rightarrow> (pair_data \<Rightarrow> py_error + 'p) \<Rightarrow> int \<Rightarrow> converter_info list \<Rightarrow> 'p extraction" where
  "extract_all_pairs_data ienv getinfo getcurrencystate rpc invert current_block converters =
     (if converters = []
      then \<lparr>ex_success = False, ex_pairs = [], ex_total_converters = None, ex_total_pairs = None\<rparr>
      else (case converters_loop
                   (process_converter ienv getinfo getcurrencystate rpc invert current_block
                      converters)
                   converters [] of
              Inl e \<Rightarrow>
                \<lparr>ex_success = False, ex_pairs = [], ex_total_converters = None,
                 ex_total_pairs = None\<rparr>
            | Inr all_pairs \<Rightarrow>
                \<lparr>ex_success = True, ex_pairs = all_pairs,
                 ex_total_converters = Some (length converters),
                 ex_total_pairs = Some (length all_pairs)\<rparr>))"

section \<open>Aggregation by currency identifiers (ticker\_formatting.py, lines 338--429)\<close>

text \<open>
  The aggregated record stores its three numbers as strings written with
  \<^verbatim>\<open>f"{x:.8f}"\<close> and reads them back with \<^verbatim>\<open>float\<close>. \<open>fmt8 x\<close> is the number such a
  string denotes: \<open>x\<close> rounded to eight decimals, a tie going to the even neighbour.
\<close>

definition fmt8 :: "real \<Rightarrow> real" where
  "fmt8 x =
     (let y = x * 100000000;
          f = \<lfloor>y\<rfloor>;
          d = y - of_int f
      in of_int (if d < 1 / 2 then f
                 else if d > 1 / 2 then f + 1
                 else if even f then f else f + 1) / 100000000)"

record ticker_pair =
  tp_base_currency_id :: "string option"
  tp_target_currency_id :: "string option"
  tp_base_currency :: "string option"
  tp_target_currency :: "string option"
  tp_base_volume :: pyval
  tp_target_volume :: pyval
  tp_last :: pyval

record cmc_ticker =
  base_id :: string
  base_name :: string
  base_symbol :: string
  quote_id :: string
  quote_name :: string
  quote_symbol :: string
  last_price :: real
  base_volume :: real
  quote_volume :: real

text \<open>Line 366, the composite key \<^verbatim>\<open>f"{base_currency_id}_{target_currency_id}"\<close>.\<close>

definition pair_key_of :: "ticker_pair \<Rightarrow> string" where
  "pair_key_of pair =
     get_str (tp_base_currency_id pair) @ ''_'' @ get_str (tp_target_currency_id pair)"

text \<open>
  The body of the loop (lines 350--420), with the three \<^verbatim>\<open>float\<close> calls in the order
  of the source, all of them before the volume test.
\<close>

definition aggregate_one ::
  "(string \<rightharpoonup> cmc_ticker) \<Rightarrow> ticker_pair \<Rightarrow> py_error + (string \<rightharpoonup> cmc_ticker)" where
  "aggregate_one pair_aggregation pair =
     (let base_currency_id = get_str (tp_base_currency_id pair);
          target_currency_id = get_str (tp_target_currency_id pair);
          base_currency = get_str (tp_base_currency pair);
          target_currency = get_str (tp_target_currency pair);
          pair_key = pair_key_of pair
      in case py_float 0 (tp_base_volume pair) of
           Inl e \<Rightarrow> Inl e
         | Inr new_base_vol \<Rightarrow>
        (case py_float 0 (tp_target_volume pair) of
           Inl e \<Rightarrow> Inl e
         | Inr new_quote_vol \<Rightarrow>
        (case py_float 0 (tp_last pair) of
           Inl e \<Rightarrow> Inl e
         | Inr new_price \<Rightarrow>
             if new_base_vol \<le> 0 then Inr pair_aggregation
             else (case pair_aggregation pair_key of
                     Some existing \<Rightarrow>
                       (let existing_base_vol = base_volume existing;
                            existing_quote_vol = quote_volume existing;
                            total_base_vol = existing_base_vol + new_base_vol;
                            total_quote_vol = existing_quote_vol + new_quote_vol;
                            existing_price = last_price existing;
                            weighted_price =
                              (if existing_quote_vol + new_quote_vol > 0
                               then (existing_price * existing_quote_vol + new_price * new_quote_vol)
                                      / (existing_quote_vol + new_quote_vol)
                               else new_price)
                        in Inr (pair_aggregation(pair_key \<mapsto>
                                  existing\<lparr>last_price := fmt8 weighted_price,
                                           base_volume := fmt8 total_base_vol,
                                           quote_volume := fmt8 total_quote_vol\<rparr>)))
                   | None \<Rightarrow>
                       Inr (pair_aggregation(pair_key \<mapsto>
                              \<lparr>base_id = base_currency_id,
                               base_name = base_currency,
                               base_symbol = base_currency,
                               quote_id = target_currency_id,
                               quote_name = target_currency,
                               quote_symbol = target_currency,
                               last_price = fmt8 new_price,
                               base_volume = fmt8 new_base_vol,
                               quote_volume = fmt8 new_quote_vol\<rparr>))))))"

fun aggregate_loop ::
  "ticker_pair list \<Rightarrow> (string \<rightharpoonup> cmc_ticker) \<Rightarrow> py_error + (string \<rightharpoonup> cmc_ticker)" where
  "aggregate_loop [] pair_aggregation = Inr pair_aggregation"
| "aggregate_loop (pair # rest) pair_aggregation =
     (case aggregate_one pair_aggregation pair of
        Inl e \<Rightarrow> Inl e
      | Inr pair_aggregation' \<Rightarrow> aggregate_loop rest pair_aggregation')"

text \<open>Lines 343 and 427--429: any exception gives the empty dictionary.\<close>

definition aggregate_pairs_for_iaddress_cmc :: "ticker_pair list \<Rightarrow> (string \<rightharpoonup> cmc_ticker)" where
  "aggregate_pairs_for_iaddress_cmc pairs_data =
     (case aggregate_loop pairs_data Map.empty of
        Inl e \<Rightarrow> Map.empty
      | Inr pair_aggregation \<Rightarrow> pair_aggregation)"

section \<open>Closed forms used in the statements\<close>

text \<open>
  The result of the weight loop in closed form: the weight the loop leaves for a currency
  is that of the last reserve entry with this ticker, 0 without one, and the total is the
  sum of all weights.
\<close>

definition reserve_weight :: "string option \<Rightarrow> info_reserve list \<Rightarrow> real" where
  "reserve_weight currency reserves =
     (case filter (\<lambda>rc. ir_ticker rc = currency) reserves of
        [] \<Rightarrow> 0
      | ms \<Rightarrow> ir_weight (last ms))"

definition total_reserve_weight :: "info_reserve list \<Rightarrow> real" where
  "total_reserve_weight reserves = sum_list (map ir_weight reserves)"

text \<open>
  What the extraction loop guarantees for an entry \<open>p\<close> of its pair list: it is the
  inverted form of a pair dictionary for two different currencies with a positive base
  or target volume, both volumes being the raw observations.
\<close>

definition with_volume :: "(pair_data \<Rightarrow> py_error + 'p) \<Rightarrow> 'p \<Rightarrow> bool" where
  "with_volume invert p \<longleftrightarrow>
     (\<exists>pd. invert pd = Inr p
        \<and> pd_base_currency pd \<noteq> pd_target_currency pd
        \<and> (0 < pd_base_volume pd \<or> 0 < pd_target_volume pd)
        \<and> pd_base_volume pd = pd_raw_base_volume pd
        \<and> pd_target_volume pd = pd_raw_target_volume pd
        \<and> pd_has_volume pd)"

section \<open>Concrete inputs\<close>

text \<open>
  A converter that has a name and nothing else, a chain listing in which the CHIPS bridge
  is reported by the CHIPS scan and by the VRSC scan, an environment without any
  variable set and an empty currency mapping.
\<close>

definition named_converter :: "string \<Rightarrow> raw_converter" where
  "named_converter n =
     \<lparr>fullyqualifiedname = Some (Some n), rc_source_chain = None, rc_reserve_currencies = None,
      lastnotarization = None, rc_reserves = None, dict_keys = [''fullyqualifiedname'']\<rparr>"

definition two_chain_rpc :: "string \<Rightarrow> raw_converter rpc_reply" where
  "two_chain_rpc chain =
     (if chain = ''CHIPS'' then Rpc_list [named_converter ''Bridge.CHIPS'', named_converter ''Highroller.CHIPS'']
      else if chain = ''VRSC'' then Rpc_list [named_converter ''Bridge.CHIPS'', named_converter ''Bridge.vETH'']
      else Rpc_none)"

definition no_env :: "string \<rightharpoonup> env_value" where
  "no_env = Map.empty"

definition no_mapping :: "string \<rightharpoonup> string option" where
  "no_mapping = Map.empty"

text \<open>
  A converter whose name is null, and listings in which the VRSC scan reports the CHIPS
  bridge together with such a converter.
\<close>

definition null_converter :: raw_converter where
  "null_converter =
     \<lparr>fullyqualifiedname = Some None, rc_source_chain = None, rc_reserve_currencies = None,
      lastnotarization = None, rc_reserves = None, dict_keys = [''fullyqualifiedname'']\<rparr>"

definition null_name_rpc :: "string \<Rightarrow> raw_converter rpc_reply" where
  "null_name_rpc chain =
     (if chain = ''CHIPS'' then Rpc_list [named_converter ''Bridge.CHIPS'', named_converter ''Highroller.CHIPS'']
      else if chain = ''VRSC'' then Rpc_list [named_converter ''Bridge.CHIPS'', null_converter]
      else Rpc_none)"

text \<open>
  Listings in which VRSC cannot be reached and CHIPS reports one converter, the bridge
  whose home is VRSC.
\<close>

definition foreign_only_rpc :: "string \<Rightarrow> raw_converter rpc_reply" where
  "foreign_only_rpc chain =
     (if chain = ''CHIPS'' then Rpc_list [named_converter ''Bridge.vETH'']
      else Rpc_none)"

text \<open>
  Listings in which a bridge unknown to the home-chain table is reported on VRSC (beside a
  native converter) and on CHIPS (alone), while every other chain fails.
\<close>

definition unmapped_rpc :: "string \<Rightarrow> raw_converter rpc_reply" where
  "unmapped_rpc chain =
     (if chain = ''VRSC'' then Rpc_list [named_converter ''Bridge.vTEST'', named_converter ''NATI'']
      else if chain = ''CHIPS'' then Rpc_list [named_converter ''Bridge.vTEST'']
      else Rpc_raises)"

text \<open>
  A converter in the raw shape of the chain, tagged with its source chain, whose only
  reserve is \<open>amount\<close> of the currency \<open>cid\<close>; and an environment in which the VRSC
  threshold is 100 and the CHIPS threshold is not a number.
\<close>

definition holding_converter :: "string \<Rightarrow> string \<Rightarrow> string \<Rightarrow> real \<Rightarrow> raw_converter" where
  "holding_converter n chain cid amount =
     \<lparr>fullyqualifiedname = Some (Some n), rc_source_chain = Some chain, rc_reserve_currencies = None,
      lastnotarization =
        Some (Some \<lparr>cs_supply = Num 5000,
                    cs_reservecurrencies =
                      Some [\<lparr>rr_currencyid = Some cid, rr_weight = Num 1,
                             rr_reserves = Num amount, rr_priceinreserve = Num 1\<rparr>]\<rparr>),
      rc_reserves = None,
      dict_keys = [''fullyqualifiedname'', ''lastnotarization'', ''source_chain'']\<rparr>"

definition bad_env :: "string \<rightharpoonup> env_value" where
  "bad_env = [''VRSC_MIN_NATIVE_TOKENS'' \<mapsto> Numeric 100,
              ''CHIPS_MIN_NATIVE_TOKENS'' \<mapsto> Malformed]"

definition default_minimum :: "string \<Rightarrow> real" where
  "default_minimum chain = 100"

text \<open>
  The converter of the liquidity scenario: \<^verbatim>\<open>Bridge.vETH\<close> on VRSC with a supply and a
  list of reserves, here four reserves of weight 0.25; and a chain on which one basket
  token is worth 156.72 VRSC and one VRSC 2.15 DAI.
\<close>

definition veth_reserve :: "string \<Rightarrow> real \<Rightarrow> info_reserve" where
  "veth_reserve t w =
     \<lparr>ir_currency_id = t, ir_ticker = Some t, ir_weight = w, ir_reserves = 1000,
      ir_price_in_reserve = 1\<rparr>"

definition veth_info :: "real \<Rightarrow> info_reserve list \<Rightarrow> converter_info" where
  "veth_info s reserves =
     \<lparr>ci_name = Some ''Bridge.vETH'',
      ci_currency_id = Some ''i3f7tSctFkiPpiedY8QR5Tep9p4qDVebDx'',
      ci_supply = Some s,
      ci_reserve_currencies = reserves,
      ci_source_chain = ''VRSC'',
      ci_chain = ''VRSC'',
      ci_currencies = map ir_currency_id reserves,
      ci_total_liquidity_usd = 0,
      ci_raw_data = named_converter ''Bridge.vETH''\<rparr>"

definition quarter_reserves :: "info_reserve list" where
  "quarter_reserves =
     [veth_reserve ''VRSC'' (1 / 4), veth_reserve ''DAI.vETH'' (1 / 4),
      veth_reserve ''MKR.vETH'' (1 / 4), veth_reserve ''vETH'' (1 / 4)]"

definition scenario_rpc :: est_rpc where
  "scenario_rpc chain params =
     (if chain = ''VRSC'' \<and> params = native_params ''i3f7tSctFkiPpiedY8QR5Tep9p4qDVebDx'' ''VRSC''
      then Estimated (15672 / 100)
      else if chain = ''VRSC'' \<and> params = vrsc_dai_params then Estimated (215 / 100)
      else Est_none)"



text \<open>
  The chain of the scenario with the USD request failing, and a reserve list with uneven
  weights.
\<close>

definition usd_down_rpc :: est_rpc where
  "usd_down_rpc chain params =
     (if chain = ''VRSC'' \<and> params = native_params ''i3f7tSctFkiPpiedY8QR5Tep9p4qDVebDx'' ''VRSC''
      then Estimated (15672 / 100)
      else Est_raises)"

definition uneven_reserves :: "info_reserve list" where
  "uneven_reserves =
     [veth_reserve ''VRSC'' (1 / 2), veth_reserve ''DAI.vETH'' (3 / 10),
      veth_reserve ''vETH'' (1 / 5)]"

text \<open>
  A converter \<^verbatim>\<open>Pure\<close> with one reserve, a chain at height 1000 whose volume series has
  one entry (12 VRSC converted to Pure) when VRSC is the volume currency and none
  otherwise, no conversion estimates, and a price inversion that changes nothing.
\<close>

definition pure_info :: converter_info where
  "pure_info =
     \<lparr>ci_name = Some ''Pure'',
      ci_currency_id = Some ''iHax5qYQGbcMGqJKKrPorpzUBX2oFFXGnY'',
      ci_supply = Some 5000,
      ci_reserve_currencies =
        [\<lparr>ir_currency_id = ''i5w5MuNik5NtLcYmNzcvaoixooEebB6MGV'', ir_ticker = Some ''VRSC'',
          ir_weight = 1, ir_reserves = 4000, ir_price_in_reserve = 1\<rparr>],
      ci_source_chain = ''VRSC'',
      ci_chain = ''VRSC'',
      ci_currencies = [''VRSC''],
      ci_total_liquidity_usd = 0,
      ci_raw_data = named_converter ''Pure''\<rparr>"

definition height_1000 :: "string \<Rightarrow> info_reply" where
  "height_1000 chain = Info_blocks 1000"

definition one_trade_state :: state_rpc where
  "one_trade_state chain currency block_range volume_currency =
     (if volume_currency = Some ''VRSC''
      then Rpc_list
             [\<lparr>si_conversiondata =
                 Some (Some [\<lparr>vp_currency = Some ''VRSC'', vp_convertto = Some ''Pure'',
                              vp_volume = Some 12, vp_open = Some 2, vp_high = Some 3,
                              vp_low = Some 1, vp_close = Some 2\<rparr>]),
               si_totalvolume = Some 12\<rparr>]
      else Rpc_list [\<lparr>si_conversiondata = Some (Some []), si_totalvolume = None\<rparr>])"

definition no_estimates :: est_rpc where
  "no_estimates chain params = Est_none"

definition no_int_env :: "string \<rightharpoonup> env_int" where
  "no_int_env = Map.empty"

definition keep_pair :: "pair_data \<Rightarrow> py_error + pair_data" where
  "keep_pair pair = Inr pair"

text \<open>The volume data and the one pair that the extraction of this input produces.\<close>

definition pure_volume_data :: volume_data where
  "pure_volume_data =
     [Some ''Pure'' \<mapsto> ([], None),
      Some ''VRSC'' \<mapsto> ([\<lparr>vp_currency = Some ''VRSC'', vp_convertto = Some ''Pure'',
                      vp_volume = Some 12, vp_open = Some 2, vp_high = Some 3,
                      vp_low = Some 1, vp_close = Some 2\<rparr>], Some 12)]"

definition vrsc_pure_pair :: pair_data where
  "vrsc_pure_pair =
     \<lparr>pd_converter = ''Pure'',
      pd_base_currency = Some ''VRSC'',
      pd_target_currency = Some ''Pure'',
      pd_base_currency_id = ''i5w5MuNik5NtLcYmNzcvaoixooEebB6MGV'',
      pd_target_currency_id = ''iHax5qYQGbcMGqJKKrPorpzUBX2oFFXGnY'',
      pd_symbol = ''VRSC-Pure'',
      pd_base_volume = 12, pd_target_volume = 0,
      pd_base_volume_24h = 12, pd_target_volume_24h = 0,
      pd_last_price = 0, pd_open = 0, pd_high = 0, pd_low = 0, pd_last = 0,
      pd_raw_base_volume = 12, pd_raw_target_volume = 0,
      pd_pair_liquidity_usd = 0, pd_has_volume = True\<rparr>"

text \<open>
  A pair from VRSC to DAI.vETH as one converter reports it, with its base volume, its
  target volume and its last price.
\<close>

definition traded :: "real \<Rightarrow> real \<Rightarrow> real \<Rightarrow> ticker_pair" where
  "traded b t price =
     \<lparr>tp_base_currency_id = Some ''i5w5MuNik5NtLcYmNzcvaoixooEebB6MGV'',
      tp_target_currency_id = Some ''iGBs4DWztRNvNEJBt4mqHszLxfKTNHTkhM'',
      tp_base_currency = Some ''VRSC'',
      tp_target_currency = Some ''DAI.vETH'',
      tp_base_volume = Num b, tp_target_volume = Num t, tp_last = Num price\<rparr>"

definition vrsc_dai_key :: string where
  "vrsc_dai_key = ''i5w5MuNik5NtLcYmNzcvaoixooEebB6MGV_iGBs4DWztRNvNEJBt4mqHszLxfKTNHTkhM''"

section \<open>The bridge filter and the discovery loop, in closed form\<close>

lemma bridge_loop_strings:
  "\<forall>c \<in> set cs. \<not> null_name c \<Longrightarrow>
   bridge_loop cs chain acc = Inr (acc @ filter (\<lambda>c. kept_on_chain chain (name_text c)) cs)"
  by (induction cs arbitrary: acc) simp_all

lemma bridge_loop_raises:
  "\<exists>c \<in> set cs. null_name c \<Longrightarrow> \<exists>e. bridge_loop cs chain acc = Inl e"
  by (induction cs arbitrary: acc) auto

lemma filter_bridge_strings:
  "\<forall>c \<in> set cs. \<not> null_name c \<Longrightarrow>
   filter_bridge_converters_by_chain cs chain = filter (\<lambda>c. kept_on_chain chain (name_text c)) cs"
  by (simp add: filter_bridge_converters_by_chain_def bridge_loop_strings)

lemma filter_bridge_raised:
  assumes "\<exists>c \<in> set cs. null_name c"
  shows "filter_bridge_converters_by_chain cs chain = cs"
proof -
  from bridge_loop_raises[OF assms] obtain e where "bridge_loop cs chain [] = Inl e" by blast
  then show ?thesis by (simp add: filter_bridge_converters_by_chain_def)
qed

lemma filter_bridge_nil: "filter_bridge_converters_by_chain [] chain = []"
  by (simp add: filter_bridge_converters_by_chain_def)

lemma tag_keeps_name: "fullyqualifiedname (tag_source_chain chain c) = fullyqualifiedname c"
  by (simp add: tag_source_chain_def)

lemma tag_sets_chain: "rc_source_chain (tag_source_chain chain c) = Some chain"
  by (simp add: tag_source_chain_def)

lemma scan_chain_fst:
  "fst (scan_chain rpc chain) =
     map (tag_source_chain chain) (filter_bridge_converters_by_chain (reported rpc chain) chain)"
  by (simp add: scan_chain_def reported_def filter_bridge_nil Let_def
           split: option.splits list.splits)

lemma scan_chain_strings:
  "\<forall>c \<in> set (reported rpc chain). \<not> null_name c \<Longrightarrow>
   fst (scan_chain rpc chain) =
     map (tag_source_chain chain)
       (filter (\<lambda>c. kept_on_chain chain (name_text c)) (reported rpc chain))"
  by (simp add: scan_chain_fst filter_bridge_strings)

lemma scan_chain_snd:
  "cr_converters (snd (scan_chain rpc chain)) = fst (scan_chain rpc chain)"
  "cr_count (snd (scan_chain rpc chain)) = length (fst (scan_chain rpc chain))"
  by (simp_all add: scan_chain_def Let_def split: option.splits list.splits)

lemma discover_loop_fst:
  "fst (discover_loop rpc chs (acc, res)) =
     acc @ concat (map (\<lambda>chain. fst (scan_chain rpc chain)) chs)"
  by (induction chs arbitrary: acc res) (simp_all add: case_prod_beta)

lemma discover_loop_snd:
  "snd (discover_loop rpc chs (acc, res)) X =
     (if X \<in> set chs then Some (snd (scan_chain rpc X)) else res X)"
  by (induction chs arbitrary: acc res) (auto simp add: case_prod_beta)

lemma table_names_are_bridges:
  "bridge_converter_chains n = Some Y \<Longrightarrow> startswith n ''Bridge.''"
  by (auto simp add: bridge_converter_chains_def startswith_def split: if_splits)

lemma kept_mapped:
  "bridge_converter_chains n = Some Y \<Longrightarrow> kept_on_chain X n = (X = Y)"
  using table_names_are_bridges[of n Y]
  by (auto simp add: kept_on_chain_def)

lemma kept_unmapped:
  "startswith n ''Bridge.'' \<Longrightarrow> bridge_converter_chains n = None \<Longrightarrow> \<not> kept_on_chain X n"
  by (auto simp add: kept_on_chain_def)

lemma name_text_named: "fullyqualifiedname c = Some (Some n) \<Longrightarrow> name_text c = n"
  by (simp add: name_text_def)

lemma extract_name:
  "ci_name (extract_converter_info mapping c) =
     (case fullyqualifiedname c of None \<Rightarrow> None | Some v \<Rightarrow> v)"
  by (simp add: extract_converter_info_def Let_def case_prod_beta
           split: option.splits pyval.splits)

lemma extract_named:
  "ci_name (extract_converter_info mapping c) = Some n \<longleftrightarrow> fullyqualifiedname c = Some (Some n)"
  by (simp add: extract_name split: option.splits)

lemma extract_source: "ci_source_chain (extract_converter_info mapping c) = source_chain_of c"
  by (simp add: extract_converter_info_def Let_def case_prod_beta
           split: option.splits pyval.splits)

lemma holdings_loop_count:
  "holdings_loop env cs inc exc = Inr (i, e) \<Longrightarrow>
   length (filter P i) + length (filter P e) =
     length (filter P inc) + length (filter P exc) + length (filter P cs)"
proof (induction cs arbitrary: inc exc)
  case Nil
  then show ?case by simp
next
  case (Cons c cs)
  then show ?case
    by (auto simp add: Let_def split: sum.splits if_splits)
qed

lemma holdings_loop_set:
  "holdings_loop env cs inc exc = Inr (i, e) \<Longrightarrow>
   set i \<union> set e = set inc \<union> set exc \<union> set cs"
proof (induction cs arbitrary: inc exc)
  case Nil
  then show ?case by simp
next
  case (Cons c cs)
  then show ?case
    by (auto simp add: Let_def split: sum.splits if_splits)
qed

lemma filter_count:
  "length (filter P (fst (filter_converters_by_native_holdings env cs))) +
   length (filter P (snd (filter_converters_by_native_holdings env cs))) = length (filter P cs)"
proof (cases "holdings_loop env cs [] []")
  case (Inl e)
  then show ?thesis by (simp add: filter_converters_by_native_holdings_def)
next
  case (Inr r)
  obtain i e where r: "r = (i, e)" by (cases r)
  from holdings_loop_count[OF Inr[unfolded r], of P] show ?thesis
    by (simp add: filter_converters_by_native_holdings_def Inr r)
qed

lemma filter_set:
  "set (fst (filter_converters_by_native_holdings env cs)) \<union>
   set (snd (filter_converters_by_native_holdings env cs)) = set cs"
proof (cases "holdings_loop env cs [] []")
  case (Inl e)
  then show ?thesis by (simp add: filter_converters_by_native_holdings_def)
next
  case (Inr r)
  obtain i e where r: "r = (i, e)" by (cases r)
  from holdings_loop_set[OF Inr[unfolded r]] show ?thesis
    by (simp add: filter_converters_by_native_holdings_def Inr r)
qed

lemma discover_loop_eq:
  "discover_loop rpc chs ([], Map.empty) =
     (concat (map (\<lambda>chain. fst (scan_chain rpc chain)) chs),
      \<lambda>X. if X \<in> set chs then Some (snd (scan_chain rpc X)) else None)"
  by (rule prod_eqI) (auto simp add: discover_loop_fst discover_loop_snd)

lemma filter_nil: "filter_converters_by_native_holdings env [] = ([], [])"
  by (simp add: filter_converters_by_native_holdings_def)

lemma discover_fields:
  fixes rpc env mapping height chs
  defines "m \<equiv> concat (map (\<lambda>chain. fst (scan_chain rpc chain)) chs)"
  defines "r \<equiv> discover_active_converters rpc env mapping height (Some chs)"
  shows "active_converters r =
           map (extract_converter_info mapping) (fst (filter_converters_by_native_holdings env m))"
    and "excluded_converters r =
           map (extract_converter_info mapping) (snd (filter_converters_by_native_holdings env m))"
    and "chain_results r = (\<lambda>X. if X \<in> set chs then Some (snd (scan_chain rpc X)) else None)"
    and "error_msg r = (if m = [] then Some ''Failed to fetch converters from any chain'' else None)"
    and "total_count r = length m"
    and "active_count r = length (active_converters r)"
    and "excluded_count r = length (excluded_converters r)"
proof -
  have r: "r = (if m = []
       then \<lparr>active_converters = [], excluded_converters = [],
             total_count = 0, active_count = 0, excluded_count = 0,
             block_height = height,
             chain_results = (\<lambda>X. if X \<in> set chs then Some (snd (scan_chain rpc X)) else None),
             error_msg = Some ''Failed to fetch converters from any chain''\<rparr>
       else \<lparr>active_converters =
               map (extract_converter_info mapping) (fst (filter_converters_by_native_holdings env m)),
             excluded_converters =
               map (extract_converter_info mapping) (snd (filter_converters_by_native_holdings env m)),
             total_count = length m,
             active_count = length (fst (filter_converters_by_native_holdings env m)),
             excluded_count = length (snd (filter_converters_by_native_holdings env m)),
             block_height = height,
             chain_results = (\<lambda>X. if X \<in> set chs then Some (snd (scan_chain rpc X)) else None),
             error_msg = None\<rparr>)"
    unfolding r_def m_def discover_active_converters_def discover_loop_eq
    by (simp add: Let_def case_prod_beta)
  show "active_converters r =
           map (extract_converter_info mapping) (fst (filter_converters_by_native_holdings env m))"
    by (cases "m = []") (simp_all add: r filter_nil)
  show "excluded_converters r =
           map (extract_converter_info mapping) (snd (filter_converters_by_native_holdings env m))"
    by (cases "m = []") (simp_all add: r filter_nil)
  show "chain_results r = (\<lambda>X. if X \<in> set chs then Some (snd (scan_chain rpc X)) else None)"
    by (cases "m = []") (simp_all add: r)
  show "error_msg r = (if m = [] then Some ''Failed to fetch converters from any chain'' else None)"
    by (cases "m = []") (simp_all add: r)
  show "total_count r = length m"
    by (cases "m = []") (simp_all add: r)
  show "active_count r = length (active_converters r)"
    by (cases "m = []") (simp_all add: r)
  show "excluded_count r = length (excluded_converters r)"
    by (cases "m = []") (simp_all add: r)
qed

lemma discover_None:
  "discover_active_converters rpc env mapping height None =
   discover_active_converters rpc env mapping height (Some [''VRSC''])"
  by (simp add: discover_active_converters_def)

lemma scan_named_mapped:
  assumes home: "bridge_converter_chains n = Some Y"
    and strings: "\<forall>c \<in> set (reported rpc X). \<not> null_name c"
  shows "filter (\<lambda>c. fullyqualifiedname c = Some (Some n)) (fst (scan_chain rpc X)) =
           (if X = Y then map (tag_source_chain Y)
                            (filter (\<lambda>c. fullyqualifiedname c = Some (Some n)) (reported rpc Y))
            else [])"
proof -
  have "filter (\<lambda>c. fullyqualifiedname c = Some (Some n)) (fst (scan_chain rpc X)) =
        map (tag_source_chain X)
          (filter (\<lambda>c. fullyqualifiedname c = Some (Some n) \<and> kept_on_chain X (name_text c))
             (reported rpc X))"
    by (simp add: scan_chain_strings[OF strings] filter_map o_def tag_keeps_name conj_commute)
  also have "filter (\<lambda>c. fullyqualifiedname c = Some (Some n) \<and> kept_on_chain X (name_text c))
               (reported rpc X) =
        filter (\<lambda>c. fullyqualifiedname c = Some (Some n) \<and> X = Y) (reported rpc X)"
    by (rule filter_cong) (auto simp add: name_text_named kept_mapped[OF home])
  finally show ?thesis by auto
qed

lemma count_named_merged:
  assumes home: "bridge_converter_chains n = Some Y"
    and strings: "\<forall>X \<in> set chs. \<forall>c \<in> set (reported rpc X). \<not> null_name c"
  shows "length (filter (\<lambda>c. fullyqualifiedname c = Some (Some n))
                   (concat (map (\<lambda>chain. fst (scan_chain rpc chain)) chs))) =
         count_list chs Y
           * length (filter (\<lambda>c. fullyqualifiedname c = Some (Some n)) (reported rpc Y))"
  using strings
  by (induction chs) (simp_all add: scan_named_mapped[OF home])

lemma count_list_distinct: "distinct xs \<Longrightarrow> count_list xs y = (if y \<in> set xs then 1 else 0)"
  by (induction xs) auto

lemma count_named_result:
  fixes rpc env mapping height chs
  defines "r \<equiv> discover_active_converters rpc env mapping height (Some chs)"
  shows "length (filter (\<lambda>i. ci_name i = Some n) (active_converters r @ excluded_converters r)) =
         length (filter (\<lambda>c. fullyqualifiedname c = Some (Some n))
                   (concat (map (\<lambda>chain. fst (scan_chain rpc chain)) chs)))"
  unfolding r_def
  by (simp add: discover_fields filter_map o_def extract_named filter_count)

lemma result_members:
  fixes rpc env mapping height chs
  defines "r \<equiv> discover_active_converters rpc env mapping height (Some chs)"
  shows "set (active_converters r @ excluded_converters r) =
         extract_converter_info mapping `
           (\<Union>X \<in> set chs. set (fst (scan_chain rpc X)))"
proof -
  let ?m = "concat (map (\<lambda>chain. fst (scan_chain rpc chain)) chs)"
  have "set (active_converters r @ excluded_converters r) =
        extract_converter_info mapping `
          (set (fst (filter_converters_by_native_holdings env ?m)) \<union>
           set (snd (filter_converters_by_native_holdings env ?m)))"
    unfolding r_def by (simp add: discover_fields image_Un)
  also have "\<dots> = extract_converter_info mapping ` set ?m"
    by (simp only: filter_set)
  finally show ?thesis by simp
qed

lemma scan_tagged: "c \<in> set (fst (scan_chain rpc X)) \<Longrightarrow> source_chain_of c = X"
  by (auto simp add: scan_chain_fst source_chain_of_def tag_sets_chain)

lemma scan_kept:
  "\<forall>c \<in> set (reported rpc X). \<not> null_name c \<Longrightarrow> c \<in> set (fst (scan_chain rpc X)) \<Longrightarrow>
   \<exists>c0 \<in> set (reported rpc X).
      kept_on_chain X (name_text c0) \<and> fullyqualifiedname c = fullyqualifiedname c0"
  by (auto simp add: scan_chain_strings tag_keeps_name)

lemmas eval_discovery =
  discover_fields scan_chain_fst scan_chain_snd reported_def get_all_converters_def
  filter_bridge_converters_by_chain_def null_name_def name_text_def
  kept_on_chain_def get_str_def startswith_def bridge_converter_chains_def
  tag_source_chain_def named_converter_def two_chain_rpc_def
  filter_converters_by_native_holdings_def get_min_native_tokens_def env_float_def
  get_native_token_holdings_def source_chain_of_def no_env_def no_mapping_def
  extract_converter_info_def Let_def

text \<open>
  Claim C1, as the code has it. Let no listing of the run hold a converter whose name is
  null, so that the bridge filter raises nowhere. For a bridge \<open>n\<close> that the home-chain
  table maps to \<open>Y\<close>: every entry named \<open>n\<close> in the result of the run (active or excluded)
  carries source chain \<open>Y\<close>; the per-chain record of every other chain holds no converter
  named \<open>n\<close>; the number of entries named \<open>n\<close> is the number of times \<open>Y\<close> occurs in the
  chain list times the number of times the listing of \<open>Y\<close> reports \<open>n\<close>; so the bridge
  appears at most once when the chain list has no repetition and the listing of \<open>Y\<close> reports
  it at most once. A listing with a null name comes back from the filter unchanged.
\<close>

theorem bridge_home_chain_rule:
  fixes rpc env mapping height chs
  defines "r \<equiv> discover_active_converters rpc env mapping height (Some chs)"
  assumes home: "bridge_converter_chains n = Some Y"
    and strings: "\<forall>X \<in> set chs. \<forall>c \<in> set (reported rpc X). \<not> null_name c"
  shows "(\<forall>i \<in> set (active_converters r @ excluded_converters r).
            ci_name i = Some n \<longrightarrow> ci_source_chain i = Y)
       \<and> (\<forall>X rec. X \<noteq> Y \<longrightarrow> chain_results r X = Some rec \<longrightarrow>
            (\<forall>c \<in> set (cr_converters rec). fullyqualifiedname c \<noteq> Some (Some n)))
       \<and> length (filter (\<lambda>i. ci_name i = Some n) (active_converters r @ excluded_converters r)) =
           count_list chs Y
             * length (filter (\<lambda>c. fullyqualifiedname c = Some (Some n)) (reported rpc Y))
       \<and> (distinct chs \<longrightarrow>
            length (filter (\<lambda>c. fullyqualifiedname c = Some (Some n)) (reported rpc Y)) \<le> 1 \<longrightarrow>
            length (filter (\<lambda>i. ci_name i = Some n)
                      (active_converters r @ excluded_converters r)) \<le> 1)
       \<and> (\<forall>cs X. (\<exists>c \<in> set cs. null_name c) \<longrightarrow> filter_bridge_converters_by_chain cs X = cs)"
proof (intro conjI)
  show "\<forall>i \<in> set (active_converters r @ excluded_converters r).
          ci_name i = Some n \<longrightarrow> ci_source_chain i = Y"
  proof (intro ballI impI)
    fix i
    assume "i \<in> set (active_converters r @ excluded_converters r)" and named: "ci_name i = Some n"
    then obtain X c where X: "X \<in> set chs" and c: "c \<in> set (fst (scan_chain rpc X))"
      and i: "i = extract_converter_info mapping c"
      unfolding r_def result_members by blast
    from strings X have sX: "\<forall>c \<in> set (reported rpc X). \<not> null_name c" by blast
    from scan_kept[OF sX c] obtain c0 where k: "kept_on_chain X (name_text c0)"
      and eq: "fullyqualifiedname c = fullyqualifiedname c0" by blast
    from named i have "fullyqualifiedname c = Some (Some n)" by (simp add: extract_named)
    with eq have "name_text c0 = n" by (simp add: name_text_named)
    with k kept_mapped[OF home, of X] have "X = Y" by simp
    with scan_tagged[OF c] i show "ci_source_chain i = Y"
      by (simp add: extract_source)
  qed
next
  show "\<forall>X rec. X \<noteq> Y \<longrightarrow> chain_results r X = Some rec \<longrightarrow>
          (\<forall>c \<in> set (cr_converters rec). fullyqualifiedname c \<noteq> Some (Some n))"
  proof (intro allI impI ballI)
    fix X rec c
    assume ne: "X \<noteq> Y" and rec: "chain_results r X = Some rec" and c: "c \<in> set (cr_converters rec)"
    from rec have X: "X \<in> set chs" and "rec = snd (scan_chain rpc X)"
      unfolding r_def by (simp_all add: discover_fields split: if_splits)
    with c have c': "c \<in> set (fst (scan_chain rpc X))" by (simp add: scan_chain_snd)
    from strings X have sX: "\<forall>c \<in> set (reported rpc X). \<not> null_name c" by blast
    from scan_kept[OF sX c'] obtain c0 where k: "kept_on_chain X (name_text c0)"
      and eq: "fullyqualifiedname c = fullyqualifiedname c0" by blast
    show "fullyqualifiedname c \<noteq> Some (Some n)"
    proof
      assume "fullyqualifiedname c = Some (Some n)"
      with eq have "name_text c0 = n" by (simp add: name_text_named)
      with k kept_mapped[OF home, of X] ne show False by simp
    qed
  qed
next
  show cnt: "length (filter (\<lambda>i. ci_name i = Some n) (active_converters r @ excluded_converters r)) =
           count_list chs Y
             * length (filter (\<lambda>c. fullyqualifiedname c = Some (Some n)) (reported rpc Y))"
    unfolding r_def by (simp only: count_named_result count_named_merged[OF home strings])
  show "distinct chs \<longrightarrow>
            length (filter (\<lambda>c. fullyqualifiedname c = Some (Some n)) (reported rpc Y)) \<le> 1 \<longrightarrow>
            length (filter (\<lambda>i. ci_name i = Some n)
                      (active_converters r @ excluded_converters r)) \<le> 1"
    by (simp only: cnt) (simp add: count_list_distinct)
next
  show "\<forall>cs X. (\<exists>c \<in> set cs. null_name c) \<longrightarrow> filter_bridge_converters_by_chain cs X = cs"
    by (intro allI impI) (rule filter_bridge_raised)
qed

text \<open>
  The scenario of the claim: the CHIPS and the VRSC scan both report \<^verbatim>\<open>Bridge.CHIPS\<close>;
  the result holds it once, with source chain CHIPS.
\<close>

theorem bridge_home_chain_rule_witness:
  "bridge_converter_chains ''Bridge.CHIPS'' = Some ''CHIPS''
   \<and> distinct [''CHIPS'', ''VRSC'']
   \<and> map fullyqualifiedname (reported two_chain_rpc ''CHIPS'') =
       [Some (Some ''Bridge.CHIPS''), Some (Some ''Highroller.CHIPS'')]
   \<and> map fullyqualifiedname (reported two_chain_rpc ''VRSC'') =
       [Some (Some ''Bridge.CHIPS''), Some (Some ''Bridge.vETH'')]
   \<and> map ci_name
        (active_converters
           (discover_active_converters two_chain_rpc no_env no_mapping 0 (Some [''CHIPS'', ''VRSC''])) @
         excluded_converters
           (discover_active_converters two_chain_rpc no_env no_mapping 0 (Some [''CHIPS'', ''VRSC'']))) =
       [Some ''Bridge.CHIPS'', Some ''Highroller.CHIPS'', Some ''Bridge.vETH'']
   \<and> map ci_source_chain
        (active_converters
           (discover_active_converters two_chain_rpc no_env no_mapping 0 (Some [''CHIPS'', ''VRSC''])) @
         excluded_converters
           (discover_active_converters two_chain_rpc no_env no_mapping 0 (Some [''CHIPS'', ''VRSC'']))) =
       [''CHIPS'', ''CHIPS'', ''VRSC'']"
proof -
  have h: "bridge_converter_chains ''Bridge.CHIPS'' = Some ''CHIPS''"
    by (simp add: bridge_converter_chains_def)
  have s: "\<forall>X \<in> set [''CHIPS'', ''VRSC'']. \<forall>c \<in> set (reported two_chain_rpc X). \<not> null_name c"
    by (simp add: reported_def get_all_converters_def two_chain_rpc_def null_name_def
          named_converter_def)
  have facts:
    "distinct [''CHIPS'', ''VRSC'']"
    "map fullyqualifiedname (reported two_chain_rpc ''CHIPS'') =
       [Some (Some ''Bridge.CHIPS''), Some (Some ''Highroller.CHIPS'')]"
    "map fullyqualifiedname (reported two_chain_rpc ''VRSC'') =
       [Some (Some ''Bridge.CHIPS''), Some (Some ''Bridge.vETH'')]"
    "map ci_name
        (active_converters
           (discover_active_converters two_chain_rpc no_env no_mapping 0 (Some [''CHIPS'', ''VRSC''])) @
         excluded_converters
           (discover_active_converters two_chain_rpc no_env no_mapping 0 (Some [''CHIPS'', ''VRSC'']))) =
       [Some ''Bridge.CHIPS'', Some ''Highroller.CHIPS'', Some ''Bridge.vETH'']"
    "map ci_source_chain
        (active_converters
           (discover_active_converters two_chain_rpc no_env no_mapping 0 (Some [''CHIPS'', ''VRSC''])) @
         excluded_converters
           (discover_active_converters two_chain_rpc no_env no_mapping 0 (Some [''CHIPS'', ''VRSC'']))) =
       [''CHIPS'', ''CHIPS'', ''VRSC'']"
    by (simp_all add: eval_discovery)
  note bridge_home_chain_rule[OF h s, of no_env no_mapping 0]
  with h facts show ?thesis by (intro conjI)
qed

text \<open>
  The VRSC listing holds the CHIPS bridge and a converter whose name is null: the filter
  raises on the null name and returns the listing unfiltered, so the bridge is in the
  result twice, once with source chain VRSC.
\<close>

theorem bridge_on_foreign_chain_counterexample:
  "bridge_converter_chains ''Bridge.CHIPS'' = Some ''CHIPS''
   \<and> distinct [''CHIPS'', ''VRSC'']
   \<and> map fullyqualifiedname (reported null_name_rpc ''VRSC'') =
       [Some (Some ''Bridge.CHIPS''), Some None]
   \<and> map ci_name
        (active_converters
           (discover_active_converters null_name_rpc no_env no_mapping 0 (Some [''CHIPS'', ''VRSC''])) @
         excluded_converters
           (discover_active_converters null_name_rpc no_env no_mapping 0 (Some [''CHIPS'', ''VRSC'']))) =
       [Some ''Bridge.CHIPS'', Some ''Highroller.CHIPS'', Some ''Bridge.CHIPS'', None]
   \<and> map ci_source_chain
        (active_converters
           (discover_active_converters null_name_rpc no_env no_mapping 0 (Some [''CHIPS'', ''VRSC''])) @
         excluded_converters
           (discover_active_converters null_name_rpc no_env no_mapping 0 (Some [''CHIPS'', ''VRSC'']))) =
       [''CHIPS'', ''CHIPS'', ''VRSC'', ''VRSC'']"
  by (simp add: eval_discovery null_name_rpc_def null_converter_def)

text \<open>
  Claim C6, as the code has it. A converter whose name starts with \<^verbatim>\<open>Bridge.\<close> and
  is not in the home-chain table is kept on no chain: the table lookup gives \<^verbatim>\<open>None\<close>,
  which equals no chain name, and the \<^verbatim>\<open>else\<close> branch of line 124 drops the converter.
  Unless a null name in a listing makes the filter raise, it is in no filtered listing,
  in no per-chain record and not in the result of the run. A listing with a null name
  comes back from the filter unchanged.
\<close>

theorem unmapped_bridge_excluded_everywhere:
  fixes rpc env mapping height chs
  defines "r \<equiv> discover_active_converters rpc env mapping height (Some chs)"
  assumes bridge: "startswith n ''Bridge.''" and unmapped: "bridge_converter_chains n = None"
  shows "((\<forall>c \<in> set cs. \<not> null_name c) \<longrightarrow>
            (\<forall>c \<in> set (filter_bridge_converters_by_chain cs X).
               fullyqualifiedname c \<noteq> Some (Some n)))
       \<and> ((\<forall>X \<in> set chs. \<forall>c \<in> set (reported rpc X). \<not> null_name c) \<longrightarrow>
            (\<forall>X rec. chain_results r X = Some rec \<longrightarrow>
               (\<forall>c \<in> set (cr_converters rec). fullyqualifiedname c \<noteq> Some (Some n))))
       \<and> ((\<forall>X \<in> set chs. \<forall>c \<in> set (reported rpc X). \<not> null_name c) \<longrightarrow>
            (\<forall>i \<in> set (active_converters r @ excluded_converters r). ci_name i \<noteq> Some n))
       \<and> ((\<exists>c \<in> set cs. null_name c) \<longrightarrow> filter_bridge_converters_by_chain cs X = cs)"
proof (intro conjI impI)
  assume strings: "\<forall>c \<in> set cs. \<not> null_name c"
  show "\<forall>c \<in> set (filter_bridge_converters_by_chain cs X). fullyqualifiedname c \<noteq> Some (Some n)"
  proof
    fix c assume "c \<in> set (filter_bridge_converters_by_chain cs X)"
    then have k: "kept_on_chain X (name_text c)"
      by (simp add: filter_bridge_strings[OF strings])
    show "fullyqualifiedname c \<noteq> Some (Some n)"
    proof
      assume "fullyqualifiedname c = Some (Some n)"
      then have "name_text c = n" by (rule name_text_named)
      with k kept_unmapped[OF bridge unmapped, of X] show False by simp
    qed
  qed
next
  assume strings: "\<forall>X \<in> set chs. \<forall>c \<in> set (reported rpc X). \<not> null_name c"
  have scan: "fullyqualifiedname c \<noteq> Some (Some n)"
    if X: "X \<in> set chs" and c: "c \<in> set (fst (scan_chain rpc X))" for c X
  proof
    assume named: "fullyqualifiedname c = Some (Some n)"
    from strings X have sX: "\<forall>c \<in> set (reported rpc X). \<not> null_name c" by blast
    from scan_kept[OF sX c] obtain c0 where k: "kept_on_chain X (name_text c0)"
      and eq: "fullyqualifiedname c = fullyqualifiedname c0" by blast
    from named eq have "name_text c0 = n" by (simp add: name_text_named)
    with k kept_unmapped[OF bridge unmapped, of X] show False by simp
  qed
  show "\<forall>X rec. chain_results r X = Some rec \<longrightarrow>
          (\<forall>c \<in> set (cr_converters rec). fullyqualifiedname c \<noteq> Some (Some n))"
  proof (intro allI impI ballI)
    fix X rec c
    assume rec: "chain_results r X = Some rec" and c: "c \<in> set (cr_converters rec)"
    from rec have X: "X \<in> set chs" and "rec = snd (scan_chain rpc X)"
      unfolding r_def by (simp_all add: discover_fields split: if_splits)
    with c have "c \<in> set (fst (scan_chain rpc X))" by (simp add: scan_chain_snd)
    with X show "fullyqualifiedname c \<noteq> Some (Some n)" by (rule scan)
  qed
next
  assume strings: "\<forall>X \<in> set chs. \<forall>c \<in> set (reported rpc X). \<not> null_name c"
  show "\<forall>i \<in> set (active_converters r @ excluded_converters r). ci_name i \<noteq> Some n"
  proof
    fix i
    assume "i \<in> set (active_converters r @ excluded_converters r)"
    then obtain X c where X: "X \<in> set chs" and c: "c \<in> set (fst (scan_chain rpc X))"
      and i: "i = extract_converter_info mapping c"
      unfolding r_def result_members by blast
    from strings X have sX: "\<forall>c \<in> set (reported rpc X). \<not> null_name c" by blast
    show "ci_name i \<noteq> Some n"
    proof
      assume "ci_name i = Some n"
      with i have named: "fullyqualifiedname c = Some (Some n)" by (simp add: extract_named)
      from scan_kept[OF sX c] obtain c0 where k: "kept_on_chain X (name_text c0)"
        and eq: "fullyqualifiedname c = fullyqualifiedname c0" by blast
      from named eq have "name_text c0 = n" by (simp add: name_text_named)
      with k kept_unmapped[OF bridge unmapped, of X] show False by simp
    qed
  qed
next
  assume "\<exists>c \<in> set cs. null_name c"
  then show "filter_bridge_converters_by_chain cs X = cs" by (rule filter_bridge_raised)
qed

lemmas eval_unmapped = eval_discovery unmapped_rpc_def

text \<open>
  A bridge \<^verbatim>\<open>Bridge.vTEST\<close> that the table does not know, reported by the VRSC and the
  CHIPS scan: only the native converter is left in the result.
\<close>

theorem unmapped_bridge_excluded_everywhere_witness:
  "startswith ''Bridge.vTEST'' ''Bridge.''
   \<and> bridge_converter_chains ''Bridge.vTEST'' = None
   \<and> map fullyqualifiedname (reported unmapped_rpc ''VRSC'') =
       [Some (Some ''Bridge.vTEST''), Some (Some ''NATI'')]
   \<and> map fullyqualifiedname (reported unmapped_rpc ''CHIPS'') = [Some (Some ''Bridge.vTEST'')]
   \<and> map ci_name
        (active_converters
           (discover_active_converters unmapped_rpc no_env no_mapping 0 (Some [''VRSC'', ''CHIPS''])) @
         excluded_converters
           (discover_active_converters unmapped_rpc no_env no_mapping 0 (Some [''VRSC'', ''CHIPS'']))) =
       [Some ''NATI'']"
proof -
  have b: "startswith ''Bridge.vTEST'' ''Bridge.''" by (simp add: startswith_def)
  have u: "bridge_converter_chains ''Bridge.vTEST'' = None"
    by (simp add: bridge_converter_chains_def)
  have listings:
    "map fullyqualifiedname (reported unmapped_rpc ''VRSC'') =
       [Some (Some ''Bridge.vTEST''), Some (Some ''NATI'')]"
    "map fullyqualifiedname (reported unmapped_rpc ''CHIPS'') = [Some (Some ''Bridge.vTEST'')]"
    by (simp_all add: reported_def get_all_converters_def unmapped_rpc_def named_converter_def)
  have s: "\<forall>X \<in> set [''VRSC'', ''CHIPS'']. \<forall>c \<in> set (reported unmapped_rpc X). \<not> null_name c"
    by (simp add: reported_def get_all_converters_def unmapped_rpc_def null_name_def
          named_converter_def)
  have names: "map ci_name
        (active_converters
           (discover_active_converters unmapped_rpc no_env no_mapping 0 (Some [''VRSC'', ''CHIPS''])) @
         excluded_converters
           (discover_active_converters unmapped_rpc no_env no_mapping 0 (Some [''VRSC'', ''CHIPS'']))) =
       [Some ''NATI'']"
    by (simp add: eval_unmapped)
  from unmapped_bridge_excluded_everywhere[OF b u, where cs = "[]" and X = "''VRSC''"
         and rpc = unmapped_rpc and env = no_env and mapping = no_mapping and height = 0
         and chs = "[''VRSC'', ''CHIPS'']"] s
  have "\<forall>i \<in> set (active_converters
           (discover_active_converters unmapped_rpc no_env no_mapping 0 (Some [''VRSC'', ''CHIPS''])) @
         excluded_converters
           (discover_active_converters unmapped_rpc no_env no_mapping 0 (Some [''VRSC'', ''CHIPS'']))).
          ci_name i \<noteq> Some ''Bridge.vTEST''"
    by blast
  with b u listings names show ?thesis by (intro conjI)
qed

text \<open>
  The claim says the unmapped bridge stays on every chain that reports it; the filter
  removes it from the VRSC listing and from the CHIPS listing.
\<close>

theorem unmapped_bridge_retained_counterexample:
  "startswith ''Bridge.vTEST'' ''Bridge.''
   \<and> bridge_converter_chains ''Bridge.vTEST'' = None
   \<and> filter_bridge_converters_by_chain
        [named_converter ''Bridge.vTEST'', named_converter ''NATI''] ''VRSC'' = [named_converter ''NATI'']
   \<and> filter_bridge_converters_by_chain [named_converter ''Bridge.vTEST''] ''CHIPS'' = []"
  by (simp add: startswith_def bridge_converter_chains_def kept_on_chain_def
        filter_bridge_converters_by_chain_def null_name_def name_text_def named_converter_def)

lemma filter_bridge_empty_iff:
  "filter_bridge_converters_by_chain cs X = [] \<longleftrightarrow>
     (\<forall>c \<in> set cs. \<not> null_name c \<and> \<not> kept_on_chain X (name_text c))"
proof (cases "\<exists>c \<in> set cs. null_name c")
  case True
  then have "filter_bridge_converters_by_chain cs X = cs" by (rule filter_bridge_raised)
  moreover from True have "cs \<noteq> []" by auto
  ultimately show ?thesis using True by auto
next
  case False
  then have s: "\<forall>c \<in> set cs. \<not> null_name c" by blast
  show ?thesis
    using s by (auto simp add: filter_bridge_strings[OF s] filter_empty_conv)
qed

lemma scan_chain_empty_iff:
  "fst (scan_chain rpc X) = [] \<longleftrightarrow>
     (\<forall>c \<in> set (reported rpc X). \<not> null_name c \<and> \<not> kept_on_chain X (name_text c))"
  by (simp add: scan_chain_fst filter_bridge_empty_iff)

lemma not_kept_iff:
  "\<not> kept_on_chain X n \<longleftrightarrow> startswith n ''Bridge.'' \<and> bridge_converter_chains n \<noteq> Some X"
  by (simp add: kept_on_chain_def)

text \<open>
  Claim C9, as the code has it. The run carries the top-level error exactly when no chain
  of the list contributes a converter after the bridge filter: every converter that a
  chain \<open>X\<close> reports has a string for its name, the name starts with \<^verbatim>\<open>Bridge.\<close> and the
  home-chain table does not map it to \<open>X\<close> (a chain whose listing failed or was empty
  reports none). This is the case exactly when every chain of the list has an empty
  per-chain record. A chain whose listing failed or was empty gets the all-zero record,
  which has no error entry, and whatever the other chains contributed is in the result:
  each such converter is among the active or the excluded entries, and their number is
  the sum of the per-chain contributions.
\<close>

theorem discovery_error_only_when_nothing_kept:
  fixes rpc env mapping height chs
  defines "r \<equiv> discover_active_converters rpc env mapping height (Some chs)"
  shows "error_msg r =
           (if \<forall>X \<in> set chs. \<forall>c \<in> set (reported rpc X).
                 \<not> null_name c \<and> startswith (name_text c) ''Bridge.''
                 \<and> bridge_converter_chains (name_text c) \<noteq> Some X
            then Some ''Failed to fetch converters from any chain'' else None)
       \<and> (error_msg r \<noteq> None \<longleftrightarrow>
            (\<forall>X \<in> set chs. \<exists>rec. chain_results r X = Some rec \<and> cr_count rec = 0
                              \<and> cr_converters rec = []))
       \<and> (\<forall>X \<in> set chs. reported rpc X = [] \<longrightarrow>
            chain_results r X =
              Some \<lparr>cr_count = 0, cr_converters = [], cr_total_found = 0, cr_bridge_filtered = 0\<rparr>)
       \<and> (\<forall>X \<in> set chs. \<forall>c \<in> set (fst (scan_chain rpc X)).
            extract_converter_info mapping c \<in> set (active_converters r @ excluded_converters r))
       \<and> length (active_converters r) + length (excluded_converters r) =
           sum_list (map (\<lambda>X. length (fst (scan_chain rpc X))) chs)
       \<and> ((\<exists>X \<in> set chs. fst (scan_chain rpc X) \<noteq> []) \<longrightarrow> error_msg r = None)"
proof (intro conjI)
  let ?m = "concat (map (\<lambda>chain. fst (scan_chain rpc chain)) chs)"
  have empty: "?m = [] \<longleftrightarrow> (\<forall>X \<in> set chs. fst (scan_chain rpc X) = [])"
    by auto
  have rec: "chain_results r X = Some (snd (scan_chain rpc X))" if "X \<in> set chs" for X
    unfolding r_def using that by (simp add: discover_fields)
  have err: "error_msg r = (if ?m = [] then Some ''Failed to fetch converters from any chain'' else None)"
    unfolding r_def by (simp add: discover_fields)
  have inputs: "?m = [] \<longleftrightarrow>
      (\<forall>X \<in> set chs. \<forall>c \<in> set (reported rpc X).
         \<not> null_name c \<and> startswith (name_text c) ''Bridge.''
         \<and> bridge_converter_chains (name_text c) \<noteq> Some X)"
    unfolding empty by (simp add: scan_chain_empty_iff not_kept_iff)
  show "error_msg r =
           (if \<forall>X \<in> set chs. \<forall>c \<in> set (reported rpc X).
                 \<not> null_name c \<and> startswith (name_text c) ''Bridge.''
                 \<and> bridge_converter_chains (name_text c) \<noteq> Some X
            then Some ''Failed to fetch converters from any chain'' else None)"
    unfolding err inputs ..
  show "error_msg r \<noteq> None \<longleftrightarrow>
          (\<forall>X \<in> set chs. \<exists>rec. chain_results r X = Some rec \<and> cr_count rec = 0
                            \<and> cr_converters rec = [])"
  proof -
    have "error_msg r \<noteq> None \<longleftrightarrow> ?m = []"
      by (simp add: err)
    also have "\<dots> \<longleftrightarrow> (\<forall>X \<in> set chs. fst (scan_chain rpc X) = [])" by (rule empty)
    also have "\<dots> \<longleftrightarrow> (\<forall>X \<in> set chs. \<exists>rec. chain_results r X = Some rec \<and> cr_count rec = 0
                            \<and> cr_converters rec = [])"
      by (auto simp add: rec scan_chain_snd)
    finally show ?thesis .
  qed
  show "\<forall>X \<in> set chs. reported rpc X = [] \<longrightarrow>
          chain_results r X =
            Some \<lparr>cr_count = 0, cr_converters = [], cr_total_found = 0, cr_bridge_filtered = 0\<rparr>"
  proof (intro ballI impI)
    fix X assume X: "X \<in> set chs" and none: "reported rpc X = []"
    from none have "snd (scan_chain rpc X) =
        \<lparr>cr_count = 0, cr_converters = [], cr_total_found = 0, cr_bridge_filtered = 0\<rparr>"
      by (auto simp add: scan_chain_def reported_def split: option.splits list.splits)
    with rec[OF X] show "chain_results r X =
        Some \<lparr>cr_count = 0, cr_converters = [], cr_total_found = 0, cr_bridge_filtered = 0\<rparr>"
      by simp
  qed
  show "\<forall>X \<in> set chs. \<forall>c \<in> set (fst (scan_chain rpc X)).
          extract_converter_info mapping c \<in> set (active_converters r @ excluded_converters r)"
    unfolding r_def result_members by blast
  show "length (active_converters r) + length (excluded_converters r) =
          sum_list (map (\<lambda>X. length (fst (scan_chain rpc X))) chs)"
  proof -
    have "length (active_converters r) + length (excluded_converters r) = length ?m"
      unfolding r_def using filter_count[of "\<lambda>c. True" env ?m]
      by (simp add: discover_fields)
    then show ?thesis by (simp add: length_concat o_def)
  qed
  show "(\<exists>X \<in> set chs. fst (scan_chain rpc X) \<noteq> []) \<longrightarrow> error_msg r = None"
    using empty by (auto simp add: err)
qed

text \<open>
  The VARRR listing raises and the VRSC listing holds one native converter: no error,
  a zero record for VARRR, one converter in total.
\<close>

theorem discovery_error_only_when_nothing_kept_witness:
  "reported unmapped_rpc ''VARRR'' = []
   \<and> error_msg (discover_active_converters unmapped_rpc no_env no_mapping 0
                  (Some [''VARRR'', ''VRSC''])) = None
   \<and> chain_results (discover_active_converters unmapped_rpc no_env no_mapping 0
                      (Some [''VARRR'', ''VRSC''])) ''VARRR'' =
       Some \<lparr>cr_count = 0, cr_converters = [], cr_total_found = 0, cr_bridge_filtered = 0\<rparr>
   \<and> total_count (discover_active_converters unmapped_rpc no_env no_mapping 0
                    (Some [''VARRR'', ''VRSC''])) = 1"
proof -
  have facts:
    "reported unmapped_rpc ''VARRR'' = []"
    "error_msg (discover_active_converters unmapped_rpc no_env no_mapping 0
                  (Some [''VARRR'', ''VRSC''])) = None"
    "chain_results (discover_active_converters unmapped_rpc no_env no_mapping 0
                      (Some [''VARRR'', ''VRSC''])) ''VARRR'' =
       Some \<lparr>cr_count = 0, cr_converters = [], cr_total_found = 0, cr_bridge_filtered = 0\<rparr>"
    "total_count (discover_active_converters unmapped_rpc no_env no_mapping 0
                    (Some [''VARRR'', ''VRSC''])) = 1"
    by (simp_all add: eval_unmapped scan_chain_def)
  from discovery_error_only_when_nothing_kept[of unmapped_rpc no_env no_mapping 0 "[''VARRR'', ''VRSC'']"]
  have "length (active_converters (discover_active_converters unmapped_rpc no_env no_mapping 0
                  (Some [''VARRR'', ''VRSC'']))) +
        length (excluded_converters (discover_active_converters unmapped_rpc no_env no_mapping 0
                  (Some [''VARRR'', ''VRSC'']))) =
        sum_list (map (\<lambda>X. length (fst (scan_chain unmapped_rpc X))) [''VARRR'', ''VRSC''])"
    by (elim conjE)
  with facts show ?thesis by (intro conjI)
qed

text \<open>
  VRSC cannot be reached and CHIPS reports one converter, the bridge whose home is VRSC.
  The CHIPS scan found a converter, yet the run ends in the error that says no chain
  could be fetched.
\<close>

theorem error_though_chain_reported_counterexample:
  "map fullyqualifiedname (reported foreign_only_rpc ''CHIPS'') = [Some (Some ''Bridge.vETH'')]
   \<and> chain_results (discover_active_converters foreign_only_rpc no_env no_mapping 0
                      (Some [''VRSC'', ''CHIPS''])) ''CHIPS'' =
       Some \<lparr>cr_count = 0, cr_converters = [], cr_total_found = 1, cr_bridge_filtered = 1\<rparr>
   \<and> error_msg (discover_active_converters foreign_only_rpc no_env no_mapping 0
                  (Some [''VRSC'', ''CHIPS''])) =
       Some ''Failed to fetch converters from any chain''"
  by (simp add: eval_discovery foreign_only_rpc_def scan_chain_def)

lemma holdings_loop_ok:
  assumes "\<forall>c \<in> set cs. get_min_native_tokens env (source_chain_of c) = Inr (T (source_chain_of c))"
  shows "holdings_loop env cs inc exc =
           Inr (inc @ filter (\<lambda>c. T (source_chain_of c)
                                  \<le> get_native_token_holdings c (source_chain_of c)) cs,
                exc @ filter (\<lambda>c. get_native_token_holdings c (source_chain_of c)
                                  < T (source_chain_of c)) cs)"
  using assms
proof (induction cs arbitrary: inc exc)
  case Nil
  then show ?case by simp
next
  case (Cons c cs)
  then show ?case by (simp add: Let_def not_le)
qed

lemma holdings_loop_error_iff:
  "(\<exists>e. holdings_loop env cs inc exc = Inl e) \<longleftrightarrow>
   (\<exists>c \<in> set cs. \<exists>e. get_min_native_tokens env (source_chain_of c) = Inl e)"
proof (induction cs arbitrary: inc exc)
  case Nil
  then show ?case by simp
next
  case (Cons c cs)
  show ?case
  proof (cases "get_min_native_tokens env (source_chain_of c)")
    case (Inl e)
    then show ?thesis by (auto simp add: Let_def)
  next
    case (Inr t)
    then show ?thesis using Cons.IH by (simp add: Let_def)
  qed
qed

lemmas eval_holdings =
  filter_converters_by_native_holdings_def get_min_native_tokens_def env_float_def
  get_native_token_holdings_def source_chain_of_def chain_currency_ids_def
  float_or_zero_def py_float_def get_str_def holding_converter_def Let_def

text \<open>
  Claim C2, as the code has it. When every converter of the input has a source chain
  whose threshold can be read (so that the filter finishes without an internal error),
  the filter returns exactly the converters at or above the threshold of their chain as
  included and exactly those below it as excluded, each list in input order: a converter
  below the threshold is in the excluded list and not in the included one, a converter
  at or above it is included.
\<close>

theorem holdings_filter_respects_minimum:
  assumes configured:
    "\<forall>c \<in> set cs. get_min_native_tokens env (source_chain_of c) = Inr (T (source_chain_of c))"
  shows "filter_converters_by_native_holdings env cs =
           (filter (\<lambda>c. T (source_chain_of c) \<le> get_native_token_holdings c (source_chain_of c)) cs,
            filter (\<lambda>c. get_native_token_holdings c (source_chain_of c) < T (source_chain_of c)) cs)
       \<and> (\<forall>c \<in> set cs.
            (get_native_token_holdings c (source_chain_of c) < T (source_chain_of c) \<longrightarrow>
               c \<in> set (snd (filter_converters_by_native_holdings env cs))
               \<and> c \<notin> set (fst (filter_converters_by_native_holdings env cs)))
          \<and> (T (source_chain_of c) \<le> get_native_token_holdings c (source_chain_of c) \<longrightarrow>
               c \<in> set (fst (filter_converters_by_native_holdings env cs))
               \<and> c \<notin> set (snd (filter_converters_by_native_holdings env cs))))"
proof -
  have eq: "filter_converters_by_native_holdings env cs =
           (filter (\<lambda>c. T (source_chain_of c) \<le> get_native_token_holdings c (source_chain_of c)) cs,
            filter (\<lambda>c. get_native_token_holdings c (source_chain_of c) < T (source_chain_of c)) cs)"
    by (simp add: filter_converters_by_native_holdings_def holdings_loop_ok[OF configured])
  show ?thesis
    by (rule conjI, rule eq) (auto simp add: eq)
qed

theorem holdings_filter_respects_minimum_witness:
  "get_min_native_tokens no_env ''VRSC'' = Inr (default_minimum ''VRSC'')
   \<and> get_min_native_tokens no_env ''CHIPS'' = Inr (default_minimum ''CHIPS'')
   \<and> get_native_token_holdings
        (holding_converter ''Pure'' ''VRSC'' ''i5w5MuNik5NtLcYmNzcvaoixooEebB6MGV'' 5) ''VRSC'' = 5
   \<and> get_native_token_holdings
        (holding_converter ''Highroller.CHIPS'' ''CHIPS'' ''iJ3WZocnjG9ufv7GKUA4LijQno5gTMb7tP'' 250)
        ''CHIPS'' = 250
   \<and> filter_converters_by_native_holdings no_env
        [holding_converter ''Pure'' ''VRSC'' ''i5w5MuNik5NtLcYmNzcvaoixooEebB6MGV'' 5,
         holding_converter ''Highroller.CHIPS'' ''CHIPS'' ''iJ3WZocnjG9ufv7GKUA4LijQno5gTMb7tP'' 250] =
       ([holding_converter ''Highroller.CHIPS'' ''CHIPS'' ''iJ3WZocnjG9ufv7GKUA4LijQno5gTMb7tP'' 250],
        [holding_converter ''Pure'' ''VRSC'' ''i5w5MuNik5NtLcYmNzcvaoixooEebB6MGV'' 5])"
proof -
  let ?a = "holding_converter ''Pure'' ''VRSC'' ''i5w5MuNik5NtLcYmNzcvaoixooEebB6MGV'' 5"
  let ?b = "holding_converter ''Highroller.CHIPS'' ''CHIPS'' ''iJ3WZocnjG9ufv7GKUA4LijQno5gTMb7tP'' 250"
  have src: "source_chain_of ?a = ''VRSC''" "source_chain_of ?b = ''CHIPS''"
    by (simp_all add: source_chain_of_def holding_converter_def)
  have mins: "get_min_native_tokens no_env ''VRSC'' = Inr (default_minimum ''VRSC'')"
    "get_min_native_tokens no_env ''CHIPS'' = Inr (default_minimum ''CHIPS'')"
    by (simp_all add: get_min_native_tokens_def env_float_def no_env_def default_minimum_def)
  have hold: "get_native_token_holdings ?a ''VRSC'' = 5" "get_native_token_holdings ?b ''CHIPS'' = 250"
    by (simp_all add: eval_holdings)
  have cfg: "\<forall>c \<in> set [?a, ?b].
      get_min_native_tokens no_env (source_chain_of c) = Inr (default_minimum (source_chain_of c))"
    by (simp add: src mins)
  from holdings_filter_respects_minimum[OF cfg]
  have "filter_converters_by_native_holdings no_env [?a, ?b] =
        (filter (\<lambda>c. default_minimum (source_chain_of c)
                       \<le> get_native_token_holdings c (source_chain_of c)) [?a, ?b],
         filter (\<lambda>c. get_native_token_holdings c (source_chain_of c)
                       < default_minimum (source_chain_of c)) [?a, ?b])"
    by (elim conjE)
  then have "filter_converters_by_native_holdings no_env [?a, ?b] = ([?b], [?a])"
    by (simp add: src hold default_minimum_def)
  with mins hold show ?thesis by (intro conjI)
qed

text \<open>
  A VRSC converter that holds 5 VRSC, under the configured minimum of 100, listed together
  with a CHIPS converter while the CHIPS threshold is not a number: reading that
  threshold raises, and the VRSC converter comes back as included.
\<close>

theorem below_minimum_included_counterexample:
  "get_min_native_tokens bad_env ''VRSC'' = Inr 100
   \<and> source_chain_of (holding_converter ''Pure'' ''VRSC'' ''i5w5MuNik5NtLcYmNzcvaoixooEebB6MGV'' 5)
       = ''VRSC''
   \<and> get_native_token_holdings
        (holding_converter ''Pure'' ''VRSC'' ''i5w5MuNik5NtLcYmNzcvaoixooEebB6MGV'' 5) ''VRSC'' = 5
   \<and> filter_converters_by_native_holdings bad_env
        [holding_converter ''Pure'' ''VRSC'' ''i5w5MuNik5NtLcYmNzcvaoixooEebB6MGV'' 5,
         holding_converter ''Highroller.CHIPS'' ''CHIPS'' ''iJ3WZocnjG9ufv7GKUA4LijQno5gTMb7tP'' 250] =
       ([holding_converter ''Pure'' ''VRSC'' ''i5w5MuNik5NtLcYmNzcvaoixooEebB6MGV'' 5,
         holding_converter ''Highroller.CHIPS'' ''CHIPS'' ''iJ3WZocnjG9ufv7GKUA4LijQno5gTMb7tP'' 250],
        [])"
  by (simp add: eval_holdings bad_env_def)

text \<open>
  Claim C10. The only call of the filter's loop that can raise is the threshold lookup.
  The loop is left by an exception exactly when the lookup raises for the source chain of
  some converter of the input, and then the filter returns the whole input as included and
  nothing as excluded, whatever the converters hold.
\<close>

theorem holdings_filter_bypassed_on_error:
  "((\<exists>e. holdings_loop env cs [] [] = Inl e) \<longleftrightarrow>
      (\<exists>c \<in> set cs. \<exists>e. get_min_native_tokens env (source_chain_of c) = Inl e))
   \<and> ((\<exists>e. holdings_loop env cs [] [] = Inl e) \<longrightarrow>
        filter_converters_by_native_holdings env cs = (cs, []))"
  by (rule conjI, rule holdings_loop_error_iff)
     (auto simp add: filter_converters_by_native_holdings_def)

theorem holdings_filter_bypassed_on_error_witness:
  "holdings_loop bad_env
     [holding_converter ''Bridge.CHIPS'' ''CHIPS'' ''iJ3WZocnjG9ufv7GKUA4LijQno5gTMb7tP'' 40000,
      holding_converter ''NATI'' ''VRSC'' ''i5w5MuNik5NtLcYmNzcvaoixooEebB6MGV'' 3] [] [] = Inl ValueError
   \<and> get_min_native_tokens bad_env ''VRSC'' = Inr 100
   \<and> get_native_token_holdings
        (holding_converter ''NATI'' ''VRSC'' ''i5w5MuNik5NtLcYmNzcvaoixooEebB6MGV'' 3) ''VRSC'' = 3
   \<and> filter_converters_by_native_holdings bad_env
        [holding_converter ''Bridge.CHIPS'' ''CHIPS'' ''iJ3WZocnjG9ufv7GKUA4LijQno5gTMb7tP'' 40000,
         holding_converter ''NATI'' ''VRSC'' ''i5w5MuNik5NtLcYmNzcvaoixooEebB6MGV'' 3] =
       ([holding_converter ''Bridge.CHIPS'' ''CHIPS'' ''iJ3WZocnjG9ufv7GKUA4LijQno5gTMb7tP'' 40000,
         holding_converter ''NATI'' ''VRSC'' ''i5w5MuNik5NtLcYmNzcvaoixooEebB6MGV'' 3],
        [])"
proof -
  let ?cs = "[holding_converter ''Bridge.CHIPS'' ''CHIPS'' ''iJ3WZocnjG9ufv7GKUA4LijQno5gTMb7tP'' 40000,
      holding_converter ''NATI'' ''VRSC'' ''i5w5MuNik5NtLcYmNzcvaoixooEebB6MGV'' 3]"
  have raised: "holdings_loop bad_env ?cs [] [] = Inl ValueError"
    by (simp add: eval_holdings bad_env_def)
  have facts: "get_min_native_tokens bad_env ''VRSC'' = Inr 100"
    "get_native_token_holdings
        (holding_converter ''NATI'' ''VRSC'' ''i5w5MuNik5NtLcYmNzcvaoixooEebB6MGV'' 3) ''VRSC'' = 3"
    by (simp_all add: eval_holdings bad_env_def)
  from holdings_filter_bypassed_on_error[of bad_env ?cs] raised
  have "filter_converters_by_native_holdings bad_env ?cs = (?cs, [])" by blast
  with raised facts show ?thesis by (intro conjI)
qed

lemma native_ratio_of_eq:
  "native_ratio_of rpc converter_name converter_id source_chain =
     (case rpc source_chain (native_params converter_id source_chain) of
        Estimated r \<Rightarrow> r | _ \<Rightarrow> 0)"
  by (simp add: native_ratio_of_def)

lemma native_ratio_failed:
  "\<forall>r. rpc source_chain (native_params converter_id source_chain) \<noteq> Estimated r \<Longrightarrow>
   native_ratio_of rpc converter_name converter_id source_chain = 0"
  by (simp add: native_ratio_of_eq split: est_reply.splits)

lemma vrsc_usd_failed:
  "\<forall>r. rpc ''VRSC'' vrsc_dai_params \<noteq> Estimated r \<Longrightarrow> get_vrsc_usd_price_cached rpc = 0"
  by (simp add: get_vrsc_usd_price_cached_def split: est_reply.splits)

lemma chain_to_vrsc_failed:
  "\<forall>r. rpc chain (chain_vrsc_params chain) \<noteq> Estimated r \<Longrightarrow> get_chain_to_vrsc_rate rpc chain = 0"
  by (simp add: get_chain_to_vrsc_rate_def split: est_reply.splits)

lemma native_usd_price_nonneg: "0 \<le> native_usd_price_of rpc source_chain \<or> source_chain = ''VRSC''"
  by (simp add: native_usd_price_of_def get_chain_usd_price_def Let_def)

lemma native_usd_price_failed:
  "\<forall>r. rpc ''VRSC'' vrsc_dai_params \<noteq> Estimated r \<Longrightarrow> native_usd_price_of rpc source_chain = 0"
  by (simp add: native_usd_price_of_def get_chain_usd_price_def Let_def vrsc_usd_failed)

lemma native_usd_price_bridge_failed:
  "source_chain \<noteq> ''VRSC'' \<Longrightarrow>
   \<forall>r. rpc source_chain (chain_vrsc_params source_chain) \<noteq> Estimated r \<Longrightarrow>
   native_usd_price_of rpc source_chain = 0"
  by (simp add: native_usd_price_of_def get_chain_usd_price_def Let_def chain_to_vrsc_failed)

lemma liquidity_cases:
  "get_converter_liquidity rpc converter_name converters_data thr = 0 \<or>
   (\<exists>info cid s.
      find (\<lambda>conv. ci_name conv = Some converter_name) converters_data = Some info
      \<and> ci_currency_id info = Some cid \<and> cid \<noteq> [] \<and> ci_supply info = Some s \<and> 0 < s \<and> thr \<le> s
      \<and> 0 < native_ratio_of rpc converter_name cid (ci_source_chain info)
      \<and> 0 < native_usd_price_of rpc (ci_source_chain info)
      \<and> get_converter_liquidity rpc converter_name converters_data thr =
          s * native_ratio_of rpc converter_name cid (ci_source_chain info)
            * native_usd_price_of rpc (ci_source_chain info))"
  by (auto simp add: get_converter_liquidity_def Let_def not_le not_less split: option.splits)

lemma liquidity_nonneg: "0 \<le> get_converter_liquidity rpc converter_name converters_data thr"
  by (simp add: get_converter_liquidity_def Let_def not_le zero_le_mult_iff split: option.splits)


lemma weights_loop_gen:
  "weights_loop b t rs (bw, tw, W) =
     (case filter (\<lambda>rc. ir_ticker rc = b) rs of [] \<Rightarrow> bw | ms \<Rightarrow> ir_weight (last ms),
      case filter (\<lambda>rc. ir_ticker rc = t) rs of [] \<Rightarrow> tw | ms \<Rightarrow> ir_weight (last ms),
      W + sum_list (map ir_weight rs))"
proof (induction rs arbitrary: bw tw W)
  case Nil
  then show ?case by simp
next
  case (Cons rc rs)
  show ?case
    by (simp add: Cons.IH Let_def add.assoc split: list.splits)
qed

lemma weights_loop_eq:
  "weights_loop b t rs (0, 0, 0) =
     (reserve_weight b rs, reserve_weight t rs, total_reserve_weight rs)"
  by (simp add: weights_loop_gen reserve_weight_def total_reserve_weight_def)

lemma native_ratio_pos:
  "0 < native_ratio_of rpc converter_name cid sc \<Longrightarrow>
   \<exists>r. 0 < r \<and> rpc sc (native_params cid sc) = Estimated r"
  by (auto simp add: native_ratio_of_eq split: est_reply.splits)

lemma native_usd_price_pos:
  "0 < native_usd_price_of rpc sc \<Longrightarrow>
   (\<exists>r. 0 < r \<and> rpc ''VRSC'' vrsc_dai_params = Estimated r) \<and>
   (sc \<noteq> ''VRSC'' \<longrightarrow> (\<exists>r. 0 < r \<and> rpc sc (chain_vrsc_params sc) = Estimated r))"
  by (auto simp add: native_usd_price_of_def get_chain_usd_price_def get_vrsc_usd_price_cached_def
        get_chain_to_vrsc_rate_def Let_def split: est_reply.splits if_splits)

lemma liquidity_not_found:
  "find (\<lambda>conv. ci_name conv = Some converter_name) converters_data = None \<Longrightarrow>
   get_converter_liquidity rpc converter_name converters_data thr = 0"
  by (simp add: get_converter_liquidity_def)

text \<open>
  Claim C3. Let \<open>L\<close> be the liquidity computed for a converter name. If the converter
  found under that name has an identifier and its first hop (converter to native
  currency) or its second hop (native currency to USD) is not positive, \<open>L\<close> is exactly 0.
  A hop is not positive in particular when its request fails in any way or comes back with
  a number that is not positive: this is spelled out for the request of the first hop,
  for the USD request that the second hop makes on every chain, and for the bridge request
  that it makes on a chain other than VRSC. Conversely a liquidity other than 0 is the
  product of a positive supply and two positive rates, and \<open>L\<close> is never negative.
\<close>

theorem liquidity_zero_when_a_hop_fails:
  "(\<forall>info cid. find (\<lambda>conv. ci_name conv = Some converter_name) converters_data = Some info \<longrightarrow>
       ci_currency_id info = Some cid \<longrightarrow>
       (native_ratio_of rpc converter_name cid (ci_source_chain info) \<le> 0
        \<or> native_usd_price_of rpc (ci_source_chain info) \<le> 0) \<longrightarrow>
       get_converter_liquidity rpc converter_name converters_data thr = 0)
   \<and> (\<forall>info cid. find (\<lambda>conv. ci_name conv = Some converter_name) converters_data = Some info \<longrightarrow>
       ci_currency_id info = Some cid \<longrightarrow>
       (\<forall>r. rpc (ci_source_chain info) (native_params cid (ci_source_chain info)) = Estimated r
              \<longrightarrow> r \<le> 0) \<longrightarrow>
       get_converter_liquidity rpc converter_name converters_data thr = 0)
   \<and> ((\<forall>r. rpc ''VRSC'' vrsc_dai_params = Estimated r \<longrightarrow> r \<le> 0) \<longrightarrow>
       get_converter_liquidity rpc converter_name converters_data thr = 0)
   \<and> (\<forall>info. find (\<lambda>conv. ci_name conv = Some converter_name) converters_data = Some info \<longrightarrow>
       ci_source_chain info \<noteq> ''VRSC'' \<longrightarrow>
       (\<forall>r. rpc (ci_source_chain info) (chain_vrsc_params (ci_source_chain info)) = Estimated r
              \<longrightarrow> r \<le> 0) \<longrightarrow>
       get_converter_liquidity rpc converter_name converters_data thr = 0)
   \<and> (get_converter_liquidity rpc converter_name converters_data thr \<noteq> 0 \<longrightarrow>
       (\<exists>info cid s.
          find (\<lambda>conv. ci_name conv = Some converter_name) converters_data = Some info
          \<and> ci_currency_id info = Some cid \<and> ci_supply info = Some s \<and> 0 < s
          \<and> 0 < native_ratio_of rpc converter_name cid (ci_source_chain info)
          \<and> 0 < native_usd_price_of rpc (ci_source_chain info)
          \<and> get_converter_liquidity rpc converter_name converters_data thr =
              s * native_ratio_of rpc converter_name cid (ci_source_chain info)
                * native_usd_price_of rpc (ci_source_chain info)))
   \<and> 0 \<le> get_converter_liquidity rpc converter_name converters_data thr"
proof -
  let ?L = "get_converter_liquidity rpc converter_name converters_data thr"
  have pos: "\<exists>info cid s.
          find (\<lambda>conv. ci_name conv = Some converter_name) converters_data = Some info
          \<and> ci_currency_id info = Some cid \<and> ci_supply info = Some s \<and> 0 < s
          \<and> 0 < native_ratio_of rpc converter_name cid (ci_source_chain info)
          \<and> 0 < native_usd_price_of rpc (ci_source_chain info)
          \<and> ?L = s * native_ratio_of rpc converter_name cid (ci_source_chain info)
                * native_usd_price_of rpc (ci_source_chain info)" if "?L \<noteq> 0"
    using liquidity_cases[of rpc converter_name converters_data thr] that by blast
  have hop: "?L = 0"
    if "find (\<lambda>conv. ci_name conv = Some converter_name) converters_data = Some info"
      and "ci_currency_id info = Some cid"
      and "native_ratio_of rpc converter_name cid (ci_source_chain info) \<le> 0
           \<or> native_usd_price_of rpc (ci_source_chain info) \<le> 0" for info cid
  proof (rule ccontr)
    assume "?L \<noteq> 0"
    from pos[OF this] that show False by auto
  qed
  have first: "?L = 0"
    if "find (\<lambda>conv. ci_name conv = Some converter_name) converters_data = Some info"
      and "ci_currency_id info = Some cid"
      and "\<forall>r. rpc (ci_source_chain info) (native_params cid (ci_source_chain info)) = Estimated r
              \<longrightarrow> r \<le> 0" for info cid
  proof (rule hop[OF that(1,2)], rule disjI1, rule ccontr)
    assume "\<not> native_ratio_of rpc converter_name cid (ci_source_chain info) \<le> 0"
    then have "0 < native_ratio_of rpc converter_name cid (ci_source_chain info)" by simp
    from native_ratio_pos[OF this] that(3) show False by fastforce
  qed
  have usd: "?L = 0" if "\<forall>r. rpc ''VRSC'' vrsc_dai_params = Estimated r \<longrightarrow> r \<le> 0"
  proof (rule ccontr)
    assume "?L \<noteq> 0"
    from pos[OF this] obtain info :: converter_info
      where "0 < native_usd_price_of rpc (ci_source_chain info)"
      by blast
    from native_usd_price_pos[OF this] that show False by fastforce
  qed
  have bridge: "?L = 0"
    if "find (\<lambda>conv. ci_name conv = Some converter_name) converters_data = Some info"
      and "ci_source_chain info \<noteq> ''VRSC''"
      and "\<forall>r. rpc (ci_source_chain info) (chain_vrsc_params (ci_source_chain info)) = Estimated r
              \<longrightarrow> r \<le> 0" for info
  proof (rule ccontr)
    assume "?L \<noteq> 0"
    from pos[OF this] that(1) have "0 < native_usd_price_of rpc (ci_source_chain info)"
      by auto
    from native_usd_price_pos[OF this] that(2,3) show False by fastforce
  qed
  show ?thesis
    using hop first usd bridge pos liquidity_nonneg[of rpc converter_name converters_data thr]
    by (intro conjI allI impI) blast+
qed

lemmas eval_liquidity =
  get_converter_liquidity_def native_ratio_of_eq native_usd_price_of_def
  get_vrsc_usd_price_cached_def get_chain_usd_price_def get_chain_to_vrsc_rate_def
  native_params_def vrsc_dai_params_def chain_vrsc_params_def bridge_name_of_def
  veth_info_def veth_reserve_def scenario_rpc_def usd_down_rpc_def Let_def

text \<open>
  The USD request raises while the first hop answers 156.72: the liquidity of the bridge
  is 0.
\<close>

theorem liquidity_zero_when_a_hop_fails_witness:
  "find (\<lambda>conv. ci_name conv = Some ''Bridge.vETH'') [veth_info 70000 quarter_reserves] =
     Some (veth_info 70000 quarter_reserves)
   \<and> native_ratio_of usd_down_rpc ''Bridge.vETH'' ''i3f7tSctFkiPpiedY8QR5Tep9p4qDVebDx'' ''VRSC''
       = 15672 / 100
   \<and> usd_down_rpc ''VRSC'' vrsc_dai_params = Est_raises
   \<and> get_converter_liquidity usd_down_rpc ''Bridge.vETH'' [veth_info 70000 quarter_reserves] 1000 = 0"
proof -
  have found: "find (\<lambda>conv. ci_name conv = Some ''Bridge.vETH'') [veth_info 70000 quarter_reserves] =
     Some (veth_info 70000 quarter_reserves)"
    by (simp add: veth_info_def)
  have hop1: "native_ratio_of usd_down_rpc ''Bridge.vETH'' ''i3f7tSctFkiPpiedY8QR5Tep9p4qDVebDx'' ''VRSC''
       = 15672 / 100"
    by (simp add: native_ratio_of_eq usd_down_rpc_def)
  have down: "usd_down_rpc ''VRSC'' vrsc_dai_params = Est_raises"
    by (simp add: usd_down_rpc_def vrsc_dai_params_def native_params_def)
  then have "\<forall>r. usd_down_rpc ''VRSC'' vrsc_dai_params = Estimated r \<longrightarrow> r \<le> 0"
    by simp
  with liquidity_zero_when_a_hop_fails[of "''Bridge.vETH''" "[veth_info 70000 quarter_reserves]"
      usd_down_rpc 1000]
  have "get_converter_liquidity usd_down_rpc ''Bridge.vETH'' [veth_info 70000 quarter_reserves] 1000 = 0"
    by blast
  with found hop1 down show ?thesis by (intro conjI)
qed



lemma pair_liquidity_value:
  assumes found: "find (\<lambda>conv. ci_name conv = Some converter_name) converters_data = Some info"
  shows "get_pair_liquidity rpc converter_name base_currency target_currency converters_data =
     (let L = get_converter_liquidity rpc converter_name converters_data 1000;
          wa = reserve_weight base_currency (ci_reserve_currencies info);
          wb = reserve_weight target_currency (ci_reserve_currencies info);
          W = total_reserve_weight (ci_reserve_currencies info)
      in if L \<le> 0 then 0
         else if base_currency = Some converter_name
         then (if 0 < wb \<and> 0 < W then wb / W * L * 2 else 0)
         else if target_currency = Some converter_name
         then (if 0 < wa \<and> 0 < W then wa / W * L * 2 else 0)
         else (if 0 < wa \<and> 0 < wb \<and> 0 < W then (wa + wb) / W * L else 0))"
  by (simp add: get_pair_liquidity_def found weights_loop_eq Let_def)

lemma reserve_weight_nonneg:
  assumes "\<forall>rc \<in> set reserves. 0 \<le> ir_weight rc"
  shows "0 \<le> reserve_weight currency reserves"
proof (cases "filter (\<lambda>rc. ir_ticker rc = currency) reserves")
  case Nil
  then show ?thesis by (simp add: reserve_weight_def)
next
  case (Cons m ms)
  then have "last (m # ms) \<in> set (filter (\<lambda>rc. ir_ticker rc = currency) reserves)"
    by (metis last_in_set list.distinct(1))
  then have "last (m # ms) \<in> set reserves" by simp
  with assms have "0 \<le> ir_weight (last (m # ms))" by blast
  with Cons show ?thesis by (simp add: reserve_weight_def)
qed

text \<open>
  Claim C4. \<open>L\<close> is the liquidity of the converter at the default floor, \<open>W\<close> the sum of
  its reserve weights, positive, and \<open>wa\<close> and \<open>wb\<close> the weights that the loop finds for
  the base and the target currency (that of the last reserve entry with the ticker, 0
  without one); no reserve weight is negative. With the converter's own token on one side
  and \<open>w\<close> the weight of the other side, the pair liquidity is \<open>2 * (w / W) * L\<close>; with two
  other currencies, both of a weight that is not zero, it is \<open>((wa + wb) / W) * L\<close>. It is
  0 when a weight that is needed is zero and when \<open>L\<close> is 0.
\<close>

theorem pair_liquidity_by_weights:
  fixes rpc converter_name base_currency target_currency converters_data info
  defines "P \<equiv> get_pair_liquidity rpc converter_name base_currency target_currency converters_data"
    and "L \<equiv> get_converter_liquidity rpc converter_name converters_data 1000"
    and "wa \<equiv> reserve_weight base_currency (ci_reserve_currencies info)"
    and "wb \<equiv> reserve_weight target_currency (ci_reserve_currencies info)"
    and "W \<equiv> total_reserve_weight (ci_reserve_currencies info)"
  assumes found: "find (\<lambda>conv. ci_name conv = Some converter_name) converters_data = Some info"
    and weights: "\<forall>rc \<in> set (ci_reserve_currencies info). 0 \<le> ir_weight rc"
    and total: "0 < W"
  shows "(base_currency = Some converter_name \<longrightarrow> P = 2 * (wb / W) * L)
       \<and> (base_currency \<noteq> Some converter_name \<longrightarrow> target_currency = Some converter_name \<longrightarrow>
            P = 2 * (wa / W) * L)
       \<and> (base_currency \<noteq> Some converter_name \<longrightarrow> target_currency \<noteq> Some converter_name \<longrightarrow>
            wa \<noteq> 0 \<longrightarrow> wb \<noteq> 0 \<longrightarrow> P = ((wa + wb) / W) * L)
       \<and> (base_currency = Some converter_name \<longrightarrow> wb = 0 \<longrightarrow> P = 0)
       \<and> (base_currency \<noteq> Some converter_name \<longrightarrow> target_currency = Some converter_name \<longrightarrow>
            wa = 0 \<longrightarrow> P = 0)
       \<and> (base_currency \<noteq> Some converter_name \<longrightarrow> target_currency \<noteq> Some converter_name \<longrightarrow>
            wa = 0 \<or> wb = 0 \<longrightarrow> P = 0)
       \<and> (L = 0 \<longrightarrow> P = 0)"
proof -
  have nonneg: "0 \<le> L"
    unfolding L_def by (rule liquidity_nonneg)
  have wa: "0 \<le> wa"
    unfolding wa_def using weights by (rule reserve_weight_nonneg)
  have wb: "0 \<le> wb"
    unfolding wb_def using weights by (rule reserve_weight_nonneg)
  have P: "P = (if L \<le> 0 then 0
         else if base_currency = Some converter_name
         then (if 0 < wb \<and> 0 < W then wb / W * L * 2 else 0)
         else if target_currency = Some converter_name
         then (if 0 < wa \<and> 0 < W then wa / W * L * 2 else 0)
         else (if 0 < wa \<and> 0 < wb \<and> 0 < W then (wa + wb) / W * L else 0))"
    unfolding P_def L_def wa_def wb_def W_def
    by (simp add: pair_liquidity_value[OF found] Let_def)
  show ?thesis
  proof (cases "L = 0")
    case True
    then show ?thesis by (simp add: P)
  next
    case False
    with nonneg have "0 < L" by simp
    with wa wb total show ?thesis by (auto simp add: P not_le)
  qed
qed

text \<open>
  Weights 0.5, 0.3 and 0.2 and a liquidity of 673896: the pair of the basket token with
  VRSC gets twice one half of it, the pair of the other two reserves gets one half.
\<close>

theorem pair_liquidity_by_weights_witness:
  "find (\<lambda>conv. ci_name conv = Some ''Bridge.vETH'') [veth_info 2000 uneven_reserves] =
     Some (veth_info 2000 uneven_reserves)
   \<and> list_all (\<lambda>rc. 0 \<le> ir_weight rc) uneven_reserves
   \<and> total_reserve_weight uneven_reserves = 1
   \<and> reserve_weight (Some ''VRSC'') uneven_reserves = 1 / 2
   \<and> reserve_weight (Some ''DAI.vETH'') uneven_reserves = 3 / 10
   \<and> reserve_weight (Some ''vETH'') uneven_reserves = 1 / 5
   \<and> get_converter_liquidity scenario_rpc ''Bridge.vETH'' [veth_info 2000 uneven_reserves] 1000
       = 673896
   \<and> get_pair_liquidity scenario_rpc ''Bridge.vETH'' (Some ''Bridge.vETH'') (Some ''VRSC'')
        [veth_info 2000 uneven_reserves] = 673896
   \<and> get_pair_liquidity scenario_rpc ''Bridge.vETH'' (Some ''DAI.vETH'') (Some ''vETH'')
        [veth_info 2000 uneven_reserves] = 336948"
proof -
  let ?d = "[veth_info 2000 uneven_reserves]"
  have found: "find (\<lambda>conv. ci_name conv = Some ''Bridge.vETH'') ?d =
     Some (veth_info 2000 uneven_reserves)"
    by (simp add: veth_info_def)
  have rs: "ci_reserve_currencies (veth_info 2000 uneven_reserves) = uneven_reserves"
    by (simp add: veth_info_def)
  have all_nonneg: "list_all (\<lambda>rc. 0 \<le> ir_weight rc) uneven_reserves"
    by (simp add: uneven_reserves_def veth_reserve_def)
  then have weights: "\<forall>rc \<in> set (ci_reserve_currencies (veth_info 2000 uneven_reserves)).
      0 \<le> ir_weight rc"
    by (simp add: rs list_all_iff)
  have w: "total_reserve_weight uneven_reserves = 1"
    "reserve_weight (Some ''VRSC'') uneven_reserves = 1 / 2"
    "reserve_weight (Some ''DAI.vETH'') uneven_reserves = 3 / 10"
    "reserve_weight (Some ''vETH'') uneven_reserves = 1 / 5"
    by (simp_all add: total_reserve_weight_def reserve_weight_def uneven_reserves_def veth_reserve_def)
  have total: "0 < total_reserve_weight (ci_reserve_currencies (veth_info 2000 uneven_reserves))"
    by (simp add: rs w)
  have L: "get_converter_liquidity scenario_rpc ''Bridge.vETH'' ?d 1000 = 673896"
    by (simp add: eval_liquidity)
  from pair_liquidity_by_weights[OF found weights total, where rpc = scenario_rpc
      and base_currency = "Some ''Bridge.vETH''" and target_currency = "Some ''VRSC''"]
  have basket: "get_pair_liquidity scenario_rpc ''Bridge.vETH'' (Some ''Bridge.vETH'') (Some ''VRSC'') ?d
       = 673896"
    by (simp add: rs w L)
  from pair_liquidity_by_weights[OF found weights total, where rpc = scenario_rpc
      and base_currency = "Some ''DAI.vETH''" and target_currency = "Some ''vETH''"]
  have reserve: "get_pair_liquidity scenario_rpc ''Bridge.vETH'' (Some ''DAI.vETH'') (Some ''vETH'') ?d
       = 336948"
    by (simp add: rs w L)
  from found all_nonneg w L basket reserve show ?thesis by (intro conjI)
qed

lemma candidate_pair_Some:
  assumes "candidate_pair rpc converters converter_name currencies vd b t = Some pd"
  shows "(0 < pd_base_volume pd \<or> 0 < pd_target_volume pd)
       \<and> pd_base_volume pd = pd_raw_base_volume pd
       \<and> pd_target_volume pd = pd_raw_target_volume pd
       \<and> pd_raw_base_volume pd =
           (case vd b of None \<Rightarrow> 0 | Some (vps, tv) \<Rightarrow> find_pair_volume vps b t)
       \<and> pd_raw_target_volume pd =
           (case vd t of None \<Rightarrow> 0 | Some (vps, tv) \<Rightarrow> find_pair_volume vps b t)
       \<and> pd_converter pd = converter_name
       \<and> pd_base_currency pd = b \<and> pd_target_currency pd = t \<and> pd_has_volume pd"
  using assms
  by (auto simp add: candidate_pair_def Let_def split: if_splits)

lemma candidate_pair_None_iff:
  "candidate_pair rpc converters converter_name currencies vd b t = None \<longleftrightarrow>
     \<not> (0 < (case vd b of None \<Rightarrow> 0 | Some (vps, tv) \<Rightarrow> find_pair_volume vps b t)
        \<or> 0 < (case vd t of None \<Rightarrow> 0 | Some (vps, tv) \<Rightarrow> find_pair_volume vps b t))"
  by (simp add: candidate_pair_def Let_def)

lemma targets_loop_new:
  assumes "targets_loop invert mk b ts all_pairs = Inr result"
  shows "\<exists>new. result = all_pairs @ new \<and>
           (\<forall>p \<in> set new. \<exists>t pd. t \<in> set ts \<and> b \<noteq> t \<and> mk b t = Some pd \<and> invert pd = Inr p)"
  using assms
proof (induction ts arbitrary: all_pairs)
  case Nil
  then show ?case by simp
next
  case (Cons t ts)
  show ?case
  proof (cases "b \<noteq> t \<and> mk b t \<noteq> None")
    case False
    with Cons.prems have "targets_loop invert mk b ts all_pairs = Inr result"
      by (auto split: option.splits)
    from Cons.IH[OF this] obtain new where new: "result = all_pairs @ new"
      and all: "\<forall>q \<in> set new. \<exists>t pd. t \<in> set ts \<and> b \<noteq> t \<and> mk b t = Some pd \<and> invert pd = Inr q"
      by blast
    from all have "\<forall>q \<in> set new.
        \<exists>t' pd. t' \<in> set (t # ts) \<and> b \<noteq> t' \<and> mk b t' = Some pd \<and> invert pd = Inr q"
      by simp blast
    with new show ?thesis by blast
  next
    case True
    then obtain pd where pd: "mk b t = Some pd" and ne: "b \<noteq> t" by auto
    with Cons.prems obtain p where p: "invert pd = Inr p"
      and rest: "targets_loop invert mk b ts (all_pairs @ [p]) = Inr result"
      by (auto split: sum.splits)
    from Cons.IH[OF rest] obtain new where new: "result = (all_pairs @ [p]) @ new"
      and all: "\<forall>q \<in> set new. \<exists>t pd. t \<in> set ts \<and> b \<noteq> t \<and> mk b t = Some pd \<and> invert pd = Inr q"
      by blast
    have "result = all_pairs @ (p # new)" using new by simp
    moreover have "\<forall>q \<in> set (p # new).
        \<exists>t' pd. t' \<in> set (t # ts) \<and> b \<noteq> t' \<and> mk b t' = Some pd \<and> invert pd = Inr q"
      using all pd ne p by simp blast
    ultimately show ?thesis by blast
  qed
qed

lemma bases_loop_new:
  assumes "bases_loop invert mk bs ts all_pairs = Inr result"
  shows "\<exists>new. result = all_pairs @ new \<and>
           (\<forall>p \<in> set new. \<exists>b t pd. b \<noteq> t \<and> mk b t = Some pd \<and> invert pd = Inr p)"
  using assms
proof (induction bs arbitrary: all_pairs)
  case Nil
  then show ?case by simp
next
  case (Cons b bs)
  from Cons.prems obtain mid where mid: "targets_loop invert mk b ts all_pairs = Inr mid"
    and rest: "bases_loop invert mk bs ts mid = Inr result"
    by (auto split: sum.splits)
  from targets_loop_new[OF mid] obtain new1 where n1: "mid = all_pairs @ new1"
    and a1: "\<forall>p \<in> set new1. \<exists>t pd. t \<in> set ts \<and> b \<noteq> t \<and> mk b t = Some pd \<and> invert pd = Inr p"
    by blast
  from Cons.IH[OF rest] obtain new2 where n2: "result = mid @ new2"
    and a2: "\<forall>p \<in> set new2. \<exists>b t pd. b \<noteq> t \<and> mk b t = Some pd \<and> invert pd = Inr p"
    by blast
  have "result = all_pairs @ (new1 @ new2)" using n1 n2 by simp
  moreover have "\<forall>p \<in> set (new1 @ new2). \<exists>b t pd. b \<noteq> t \<and> mk b t = Some pd \<and> invert pd = Inr p"
    using a1 a2 by simp blast
  ultimately show ?case by blast
qed

lemma process_converter_new:
  assumes "process_converter ienv getinfo getcurrencystate rpc invert current_block converters
             converter all_pairs = Inr result"
  shows "\<exists>new. result = all_pairs @ new \<and> (\<forall>p \<in> set new. with_volume invert p)"
proof (cases "ci_name converter")
  case None
  with assms show ?thesis by (simp add: process_converter_def)
next
  case (Some converter_name)
  show ?thesis
  proof (cases "get_chain_config ienv (get_chain_for_converter converter_name)")
    case (Inl e)
    with assms Some show ?thesis by (simp add: process_converter_def)
  next
    case (Inr chain_config)
    show ?thesis
    proof (cases "length (get_converter_currencies converter) < 2")
      case True
      with assms Some Inr have "result = all_pairs" by (simp add: process_converter_def Let_def)
      then show ?thesis by simp
    next
      case False
      let ?query = "\<lambda>currency_symbol.
          get_currency_volume_info ienv getinfo getcurrencystate converter_name
            (current_block - blocks_per_day chain_config) current_block
            (blocks_per_day chain_config) currency_symbol
            (get_chain_for_converter converter_name)"
      show ?thesis
      proof (cases "volume_loop ?query (get_converter_currencies converter) Map.empty")
        case (Inl e)
        with assms Some \<open>get_chain_config ienv (get_chain_for_converter converter_name) = Inr chain_config\<close>
          False
        show ?thesis by (simp add: process_converter_def Let_def)
      next
        case vd: (Inr vd)
        with assms Some Inr False
        have loop: "bases_loop invert
           (candidate_pair rpc converters converter_name (get_converter_currencies converter) vd)
           (map cur_symbol (get_converter_currencies converter))
           (map cur_symbol (get_converter_currencies converter)) all_pairs = Inr result"
          by (simp add: process_converter_def Let_def)
        from bases_loop_new[OF loop] obtain new where new: "result = all_pairs @ new"
          and all: "\<forall>p \<in> set new. \<exists>b t pd. b \<noteq> t
              \<and> candidate_pair rpc converters converter_name (get_converter_currencies converter) vd b t
                  = Some pd
              \<and> invert pd = Inr p"
          by blast
        have "\<forall>p \<in> set new. with_volume invert p"
        proof
          fix p assume "p \<in> set new"
          with all obtain b t pd where ne: "b \<noteq> t"
            and c: "candidate_pair rpc converters converter_name (get_converter_currencies converter)
                      vd b t = Some pd"
            and i: "invert pd = Inr p"
            by blast
          from candidate_pair_Some[OF c] ne i show "with_volume invert p"
            unfolding with_volume_def by blast
        qed
        with new show ?thesis by blast
      qed
    qed
  qed
qed

lemma converters_loop_new:
  assumes "converters_loop body cs all_pairs = Inr result"
    and "\<And>c ap r. body c ap = Inr r \<Longrightarrow> \<exists>new. r = ap @ new \<and> (\<forall>p \<in> set new. Q p)"
  shows "\<exists>new. result = all_pairs @ new \<and> (\<forall>p \<in> set new. Q p)"
  using assms(1)
proof (induction cs arbitrary: all_pairs)
  case Nil
  then show ?case by simp
next
  case (Cons c cs)
  from Cons.prems obtain mid where mid: "body c all_pairs = Inr mid"
    and rest: "converters_loop body cs mid = Inr result"
    by (auto split: sum.splits)
  from assms(2)[OF mid] obtain new1 where n1: "mid = all_pairs @ new1" and a1: "\<forall>p \<in> set new1. Q p"
    by blast
  from Cons.IH[OF rest] obtain new2 where n2: "result = mid @ new2" and a2: "\<forall>p \<in> set new2. Q p"
    by blast
  have "result = all_pairs @ (new1 @ new2)" using n1 n2 by simp
  moreover have "\<forall>p \<in> set (new1 @ new2). Q p" using a1 a2 by auto
  ultimately show ?case by blast
qed

lemma extract_pairs_with_volume:
  "\<forall>p \<in> set (ex_pairs (extract_all_pairs_data ienv getinfo getcurrencystate rpc invert
                            current_block converters)). with_volume invert p"
proof (cases "converters = []")
  case True
  then show ?thesis by (simp add: extract_all_pairs_data_def)
next
  case False
  let ?body = "process_converter ienv getinfo getcurrencystate rpc invert current_block converters"
  show ?thesis
  proof (cases "converters_loop ?body converters []")
    case (Inl e)
    with False show ?thesis by (simp add: extract_all_pairs_data_def)
  next
    case (Inr all_pairs)
    have "\<exists>new. all_pairs = [] @ new \<and> (\<forall>p \<in> set new. with_volume invert p)"
      by (rule converters_loop_new[OF Inr]) (rule process_converter_new)
    with False Inr show ?thesis by (simp add: extract_all_pairs_data_def)
  qed
qed

text \<open>
  Claim C8. Every entry of the extracted pair list is the price-inverted form of a pair
  dictionary that was built for two different currencies of a converter and whose base
  volume or target volume is positive, hence not zero; the two volumes are the raw
  observations of the base-currency query and of the target-currency query. A
  combination for which both observations are 0 builds no dictionary.
\<close>

theorem pairs_only_with_volume:
  "(\<forall>p \<in> set (ex_pairs (extract_all_pairs_data ienv getinfo getcurrencystate rpc invert
                            current_block converters)).
      \<exists>pd. invert pd = Inr p
         \<and> pd_base_currency pd \<noteq> pd_target_currency pd
         \<and> (pd_base_volume pd \<noteq> 0 \<or> pd_target_volume pd \<noteq> 0)
         \<and> (0 < pd_base_volume pd \<or> 0 < pd_target_volume pd)
         \<and> pd_base_volume pd = pd_raw_base_volume pd
         \<and> pd_target_volume pd = pd_raw_target_volume pd)
   \<and> (\<forall>converter_name currencies vd b t.
        (case vd b of None \<Rightarrow> 0 | Some (vps, tv) \<Rightarrow> find_pair_volume vps b t) = 0 \<longrightarrow>
        (case vd t of None \<Rightarrow> 0 | Some (vps, tv) \<Rightarrow> find_pair_volume vps b t) = 0 \<longrightarrow>
        candidate_pair rpc converters converter_name currencies vd b t = None)
   \<and> (\<forall>converter_name currencies vd b t pd.
        candidate_pair rpc converters converter_name currencies vd b t = Some pd \<longrightarrow>
        pd_base_volume pd = (case vd b of None \<Rightarrow> 0 | Some (vps, tv) \<Rightarrow> find_pair_volume vps b t)
        \<and> pd_target_volume pd =
            (case vd t of None \<Rightarrow> 0 | Some (vps, tv) \<Rightarrow> find_pair_volume vps b t))"
proof (intro conjI)
  show "\<forall>p \<in> set (ex_pairs (extract_all_pairs_data ienv getinfo getcurrencystate rpc invert
                            current_block converters)).
      \<exists>pd. invert pd = Inr p
         \<and> pd_base_currency pd \<noteq> pd_target_currency pd
         \<and> (pd_base_volume pd \<noteq> 0 \<or> pd_target_volume pd \<noteq> 0)
         \<and> (0 < pd_base_volume pd \<or> 0 < pd_target_volume pd)
         \<and> pd_base_volume pd = pd_raw_base_volume pd
         \<and> pd_target_volume pd = pd_raw_target_volume pd"
  proof
    fix p
    assume mem: "p \<in> set (ex_pairs (extract_all_pairs_data ienv getinfo getcurrencystate rpc invert
                            current_block converters))"
    have "with_volume invert p"
      by (rule extract_pairs_with_volume[rule_format, OF mem])
    then obtain pd where "invert pd = Inr p" "pd_base_currency pd \<noteq> pd_target_currency pd"
      "0 < pd_base_volume pd \<or> 0 < pd_target_volume pd"
      "pd_base_volume pd = pd_raw_base_volume pd" "pd_target_volume pd = pd_raw_target_volume pd"
      unfolding with_volume_def by blast
    moreover from this(3) have "pd_base_volume pd \<noteq> 0 \<or> pd_target_volume pd \<noteq> 0" by auto
    ultimately show "\<exists>pd. invert pd = Inr p
         \<and> pd_base_currency pd \<noteq> pd_target_currency pd
         \<and> (pd_base_volume pd \<noteq> 0 \<or> pd_target_volume pd \<noteq> 0)
         \<and> (0 < pd_base_volume pd \<or> 0 < pd_target_volume pd)
         \<and> pd_base_volume pd = pd_raw_base_volume pd
         \<and> pd_target_volume pd = pd_raw_target_volume pd"
      by blast
  qed
next
  show "\<forall>converter_name currencies vd b t.
        (case vd b of None \<Rightarrow> 0 | Some (vps, tv) \<Rightarrow> find_pair_volume vps b t) = 0 \<longrightarrow>
        (case vd t of None \<Rightarrow> 0 | Some (vps, tv) \<Rightarrow> find_pair_volume vps b t) = 0 \<longrightarrow>
        candidate_pair rpc converters converter_name currencies vd b t = None"
    by (simp add: candidate_pair_None_iff)
next
  show "\<forall>converter_name currencies vd b t pd.
        candidate_pair rpc converters converter_name currencies vd b t = Some pd \<longrightarrow>
        pd_base_volume pd = (case vd b of None \<Rightarrow> 0 | Some (vps, tv) \<Rightarrow> find_pair_volume vps b t)
        \<and> pd_target_volume pd =
            (case vd t of None \<Rightarrow> 0 | Some (vps, tv) \<Rightarrow> find_pair_volume vps b t)"
  proof (intro allI impI)
    fix converter_name currencies vd b t pd
    assume "candidate_pair rpc converters converter_name currencies vd b t = Some pd"
    from candidate_pair_Some[OF this]
    show "pd_base_volume pd = (case vd b of None \<Rightarrow> 0 | Some (vps, tv) \<Rightarrow> find_pair_volume vps b t)
        \<and> pd_target_volume pd =
            (case vd t of None \<Rightarrow> 0 | Some (vps, tv) \<Rightarrow> find_pair_volume vps b t)"
      by simp
  qed
qed

lemma pure_currencies:
  "get_converter_currencies pure_info =
     [\<lparr>cur_symbol = Some ''Pure'', cur_currency_id = ''iHax5qYQGbcMGqJKKrPorpzUBX2oFFXGnY''\<rparr>,
      \<lparr>cur_symbol = Some ''VRSC'', cur_currency_id = ''i5w5MuNik5NtLcYmNzcvaoixooEebB6MGV''\<rparr>]"
  by (simp add: get_converter_currencies_def pure_info_def get_str_def)

lemma pure_chain: "get_chain_for_converter ''Pure'' = ''VRSC''"
  by (simp add: get_chain_for_converter_def endswith_def)

lemma pure_config:
  "get_chain_config no_int_env ''VRSC'' = Inr \<lparr>blocks_per_day = 1440, block_time_seconds = 60\<rparr>"
  by (simp add: get_chain_config_def env_int_or_def no_int_env_def)

lemma pure_volume_info:
  "get_currency_volume_info no_int_env height_1000 one_trade_state ''Pure'' s e i (Some ''Pure'') ''VRSC''
     = Inr (Some ([], None))"
  "get_currency_volume_info no_int_env height_1000 one_trade_state ''Pure'' s e i (Some ''VRSC'') ''VRSC''
     = Inr (Some ([\<lparr>vp_currency = Some ''VRSC'', vp_convertto = Some ''Pure'',
                      vp_volume = Some 12, vp_open = Some 2, vp_high = Some 3,
                      vp_low = Some 1, vp_close = Some 2\<rparr>], Some 12))"
  by (simp_all add: get_currency_volume_info_def pure_config height_1000_def one_trade_state_def Let_def)

lemma pure_volume_loop:
  "volume_loop
     (\<lambda>currency_symbol. get_currency_volume_info no_int_env height_1000 one_trade_state ''Pure''
         s e i currency_symbol ''VRSC'')
     (get_converter_currencies pure_info) Map.empty = Inr pure_volume_data"
  by (simp add: pure_currencies pure_volume_info pure_volume_data_def Let_def)

lemma pure_liquidity:
  "get_pair_liquidity no_estimates ''Pure'' b t [pure_info] = 0"
  by (simp add: get_pair_liquidity_def get_converter_liquidity_def native_ratio_of_eq
        pure_info_def no_estimates_def Let_def)

lemma pure_candidates:
  "candidate_pair no_estimates [pure_info] ''Pure'' (get_converter_currencies pure_info)
     pure_volume_data (Some ''Pure'') (Some ''VRSC'') = None"
  "candidate_pair no_estimates [pure_info] ''Pure'' (get_converter_currencies pure_info)
     pure_volume_data (Some ''VRSC'') (Some ''Pure'') =
   Some \<lparr>pd_converter = ''Pure'',
         pd_base_currency = Some ''VRSC'',
         pd_target_currency = Some ''Pure'',
         pd_base_currency_id = ''i5w5MuNik5NtLcYmNzcvaoixooEebB6MGV'',
         pd_target_currency_id = ''iHax5qYQGbcMGqJKKrPorpzUBX2oFFXGnY'',
         pd_symbol = ''VRSC-Pure'',
         pd_base_volume = 12, pd_target_volume = 0,
         pd_base_volume_24h = 12, pd_target_volume_24h = 0,
         pd_last_price = 0, pd_open = 0, pd_high = 0, pd_low = 0, pd_last = 0,
         pd_raw_base_volume = 12, pd_raw_target_volume = 0,
         pd_pair_liquidity_usd = 0, pd_has_volume = True\<rparr>"
  by (simp_all add: candidate_pair_def pure_volume_data_def pure_currencies pure_liquidity
        symbol_text_def Let_def)

lemma pure_targets:
  "targets_loop keep_pair
     (candidate_pair no_estimates [pure_info] ''Pure'' (get_converter_currencies pure_info)
        pure_volume_data)
     (Some ''Pure'') [Some ''Pure'', Some ''VRSC''] [] = Inr []"
  "targets_loop keep_pair
     (candidate_pair no_estimates [pure_info] ''Pure'' (get_converter_currencies pure_info)
        pure_volume_data)
     (Some ''VRSC'') [Some ''Pure'', Some ''VRSC''] [] = Inr [vrsc_pure_pair]"
  by (simp_all only: targets_loop.simps)
     (simp_all add: pure_candidates keep_pair_def vrsc_pure_pair_def)

lemma pure_pairs:
  "bases_loop keep_pair
     (candidate_pair no_estimates [pure_info] ''Pure'' (get_converter_currencies pure_info)
        pure_volume_data)
     [Some ''Pure'', Some ''VRSC''] [Some ''Pure'', Some ''VRSC''] [] = Inr [vrsc_pure_pair]"
  by (simp only: bases_loop.simps pure_targets sum.case)

lemma pure_process:
  "process_converter no_int_env height_1000 one_trade_state no_estimates keep_pair 1000 [pure_info]
     pure_info [] = Inr [vrsc_pure_pair]"
proof -
  have name: "ci_name pure_info = Some ''Pure''" by (simp add: pure_info_def)
  have symbols: "map cur_symbol (get_converter_currencies pure_info) = [Some ''Pure'', Some ''VRSC'']"
    by (simp add: pure_currencies)
  have len: "\<not> length (get_converter_currencies pure_info) < 2"
    by (simp add: pure_currencies)
  show ?thesis
    unfolding process_converter_def Let_def name symbols
    by (simp add: pure_chain pure_config len pure_volume_loop pure_pairs
          del: bases_loop.simps targets_loop.simps volume_loop.simps)
qed

lemma pure_extraction:
  "extract_all_pairs_data no_int_env height_1000 one_trade_state no_estimates keep_pair 1000 [pure_info]
     = \<lparr>ex_success = True, ex_pairs = [vrsc_pure_pair], ex_total_converters = Some 1,
        ex_total_pairs = Some 1\<rparr>"
  by (simp add: extract_all_pairs_data_def pure_process)

text \<open>
  For \<^verbatim>\<open>Pure\<close> the pair from VRSC to Pure has a base volume of 12 and is extracted; the
  pair from Pure to VRSC has two observations of 0 and is not.
\<close>

theorem pairs_only_with_volume_witness:
  "ex_pairs (extract_all_pairs_data no_int_env height_1000 one_trade_state no_estimates
               keep_pair 1000 [pure_info]) = [vrsc_pure_pair]
   \<and> keep_pair vrsc_pure_pair = Inr vrsc_pure_pair
   \<and> pd_base_volume vrsc_pure_pair = 12
   \<and> pd_target_volume vrsc_pure_pair = 0
   \<and> candidate_pair no_estimates [pure_info] ''Pure'' (get_converter_currencies pure_info)
        pure_volume_data (Some ''Pure'') (Some ''VRSC'') = None"
proof -
  have facts:
    "ex_pairs (extract_all_pairs_data no_int_env height_1000 one_trade_state no_estimates
               keep_pair 1000 [pure_info]) = [vrsc_pure_pair]"
    "keep_pair vrsc_pure_pair = Inr vrsc_pure_pair"
    "pd_base_volume vrsc_pure_pair = 12"
    "pd_target_volume vrsc_pure_pair = 0"
    by (simp_all add: pure_extraction keep_pair_def vrsc_pure_pair_def)
  have zero: "(case pure_volume_data (Some ''Pure'') of None \<Rightarrow> 0
                | Some (vps, tv) \<Rightarrow> find_pair_volume vps (Some ''Pure'') (Some ''VRSC'')) = 0"
    "(case pure_volume_data (Some ''VRSC'') of None \<Rightarrow> 0
                | Some (vps, tv) \<Rightarrow> find_pair_volume vps (Some ''Pure'') (Some ''VRSC'')) = 0"
    by (simp_all add: pure_volume_data_def)
  from pairs_only_with_volume[of no_int_env height_1000 one_trade_state no_estimates keep_pair 1000
      "[pure_info]"]
  have "\<forall>converter_name currencies vd b t.
        (case vd b of None \<Rightarrow> 0 | Some (vps, tv) \<Rightarrow> find_pair_volume vps b t) = 0 \<longrightarrow>
        (case vd t of None \<Rightarrow> 0 | Some (vps, tv) \<Rightarrow> find_pair_volume vps b t) = 0 \<longrightarrow>
        candidate_pair no_estimates [pure_info] converter_name currencies vd b t = None"
    by (elim conjE)
  with zero have "candidate_pair no_estimates [pure_info] ''Pure'' (get_converter_currencies pure_info)
        pure_volume_data (Some ''Pure'') (Some ''VRSC'') = None"
    by blast
  with facts show ?thesis by (intro conjI)
qed

lemma fmt8_of_int: "fmt8 (of_int n / 100000000) = of_int n / 100000000"
  by (simp add: fmt8_def)

lemma fmt8_fixed_iff: "fmt8 x = x \<longleftrightarrow> (\<exists>n. x = of_int n / 100000000)"
proof
  assume "fmt8 x = x"
  then have "x = of_int (let y = x * 100000000; f = \<lfloor>y\<rfloor>; d = y - of_int f
                        in if d < 1 / 2 then f else if d > 1 / 2 then f + 1
                           else if even f then f else f + 1) / 100000000"
    by (simp add: fmt8_def Let_def)
  then show "\<exists>n. x = of_int n / 100000000" by blast
next
  assume "\<exists>n. x = of_int n / 100000000"
  then obtain n where "x = of_int n / 100000000" ..
  then show "fmt8 x = x" by (simp only: fmt8_of_int)
qed

lemma fmt8_idem: "fmt8 (fmt8 x) = fmt8 x"
proof -
  have "\<exists>n. fmt8 x = of_int n / 100000000"
    unfolding fmt8_def Let_def by blast
  then show ?thesis by (simp add: fmt8_fixed_iff)
qed

lemma fmt8_add: "fmt8 x = x \<Longrightarrow> fmt8 y = y \<Longrightarrow> fmt8 (x + y) = x + y"
proof -
  assume "fmt8 x = x" and "fmt8 y = y"
  then obtain n m where "x = of_int n / 100000000" and "y = of_int m / 100000000"
    by (auto simp add: fmt8_fixed_iff)
  then have "x + y = of_int (n + m) / 100000000"
    by (simp add: add_divide_distrib)
  then show ?thesis by (simp only: fmt8_of_int)
qed

lemma aggregate_one_skip:
  "py_float 0 (tp_base_volume p) = Inr b \<Longrightarrow> py_float 0 (tp_target_volume p) = Inr t \<Longrightarrow>
   py_float 0 (tp_last p) = Inr price \<Longrightarrow> b \<le> 0 \<Longrightarrow> aggregate_one agg p = Inr agg"
  by (simp add: aggregate_one_def Let_def)

lemma aggregate_one_first:
  "py_float 0 (tp_base_volume p) = Inr b \<Longrightarrow> py_float 0 (tp_target_volume p) = Inr t \<Longrightarrow>
   py_float 0 (tp_last p) = Inr price \<Longrightarrow> 0 < b \<Longrightarrow> agg (pair_key_of p) = None \<Longrightarrow>
   aggregate_one agg p =
     Inr (agg(pair_key_of p \<mapsto>
            \<lparr>base_id = get_str (tp_base_currency_id p),
             base_name = get_str (tp_base_currency p),
             base_symbol = get_str (tp_base_currency p),
             quote_id = get_str (tp_target_currency_id p),
             quote_name = get_str (tp_target_currency p),
             quote_symbol = get_str (tp_target_currency p),
             last_price = fmt8 price, base_volume = fmt8 b, quote_volume = fmt8 t\<rparr>))"
  by (simp add: aggregate_one_def Let_def not_le)

lemma aggregate_one_merge:
  "py_float 0 (tp_base_volume p) = Inr b \<Longrightarrow> py_float 0 (tp_target_volume p) = Inr t \<Longrightarrow>
   py_float 0 (tp_last p) = Inr price \<Longrightarrow> 0 < b \<Longrightarrow> agg (pair_key_of p) = Some existing \<Longrightarrow>
   aggregate_one agg p =
     Inr (agg(pair_key_of p \<mapsto>
            existing\<lparr>last_price :=
                       fmt8 (if 0 < quote_volume existing + t
                             then (last_price existing * quote_volume existing + price * t)
                                    / (quote_volume existing + t)
                             else price),
                     base_volume := fmt8 (base_volume existing + b),
                     quote_volume := fmt8 (quote_volume existing + t)\<rparr>))"
  by (simp add: aggregate_one_def Let_def not_le)

lemma aggregate_two:
  assumes key: "pair_key_of p2 = pair_key_of p1"
    and v1: "tp_base_volume p1 = Num b1" "tp_target_volume p1 = Num t1" "tp_last p1 = Num pr1"
    and v2: "tp_base_volume p2 = Num b2" "tp_target_volume p2 = Num t2" "tp_last p2 = Num pr2"
    and pos: "0 < b1" "0 < b2"
  shows "aggregate_pairs_for_iaddress_cmc [p1, p2] (pair_key_of p1) =
     Some \<lparr>base_id = get_str (tp_base_currency_id p1),
           base_name = get_str (tp_base_currency p1),
           base_symbol = get_str (tp_base_currency p1),
           quote_id = get_str (tp_target_currency_id p1),
           quote_name = get_str (tp_target_currency p1),
           quote_symbol = get_str (tp_target_currency p1),
           last_price = fmt8 (if 0 < fmt8 t1 + t2
                              then (fmt8 pr1 * fmt8 t1 + pr2 * t2) / (fmt8 t1 + t2)
                              else pr2),
           base_volume = fmt8 (fmt8 b1 + b2),
           quote_volume = fmt8 (fmt8 t1 + t2)\<rparr>"
proof -
  have f1: "py_float 0 (tp_base_volume p1) = Inr b1" "py_float 0 (tp_target_volume p1) = Inr t1"
    "py_float 0 (tp_last p1) = Inr pr1"
    by (simp_all add: py_float_def v1)
  have f2: "py_float 0 (tp_base_volume p2) = Inr b2" "py_float 0 (tp_target_volume p2) = Inr t2"
    "py_float 0 (tp_last p2) = Inr pr2"
    by (simp_all add: py_float_def v2)
  let ?first = "\<lparr>base_id = get_str (tp_base_currency_id p1),
             base_name = get_str (tp_base_currency p1),
             base_symbol = get_str (tp_base_currency p1),
             quote_id = get_str (tp_target_currency_id p1),
             quote_name = get_str (tp_target_currency p1),
             quote_symbol = get_str (tp_target_currency p1),
             last_price = fmt8 pr1, base_volume = fmt8 b1, quote_volume = fmt8 t1\<rparr>"
  have s1: "aggregate_one Map.empty p1 = Inr [pair_key_of p1 \<mapsto> ?first]"
    by (simp add: aggregate_one_first[OF f1 pos(1)])
  have look: "[pair_key_of p1 \<mapsto> ?first] (pair_key_of p2) = Some ?first"
    by (simp add: key)
  have s2: "aggregate_one [pair_key_of p1 \<mapsto> ?first] p2 =
     Inr ([pair_key_of p1 \<mapsto> ?first](pair_key_of p2 \<mapsto>
            ?first\<lparr>last_price :=
                       fmt8 (if 0 < quote_volume ?first + t2
                             then (last_price ?first * quote_volume ?first + pr2 * t2)
                                    / (quote_volume ?first + t2)
                             else pr2),
                     base_volume := fmt8 (base_volume ?first + b2),
                     quote_volume := fmt8 (quote_volume ?first + t2)\<rparr>))"
    by (rule aggregate_one_merge[where agg = "[pair_key_of p1 \<mapsto> ?first]", OF f2 pos(2) look])
  show ?thesis
    unfolding aggregate_pairs_for_iaddress_cmc_def
    by (simp add: s1 s2 key del: fun_upd_apply) (simp add: key)
qed

lemma fmt8_close: "\<bar>fmt8 x - x\<bar> \<le> 1 / 200000000"
proof -
  define y where "y = x * 100000000"
  define f where "f = \<lfloor>y\<rfloor>"
  define k where "k = (if y - of_int f < 1 / 2 then f
                       else if y - of_int f > 1 / 2 then f + 1
                       else if even f then f else f + 1)"
  have lo: "of_int f \<le> y" and hi: "y < of_int f + 1"
    unfolding f_def by linarith+
  have "\<bar>of_int k - y\<bar> \<le> 1 / 2"
    unfolding k_def using lo hi by auto
  have fx: "fmt8 x = of_int k / 100000000"
    unfolding fmt8_def Let_def k_def f_def y_def by simp
  have xy: "x = y / 100000000"
    unfolding y_def by simp
  have "fmt8 x - x = of_int k / 100000000 - x"
    by (simp only: fx)
  also have "\<dots> = of_int k / 100000000 - y / 100000000"
    by (simp only: xy[symmetric])
  also have "\<dots> = (of_int k - y) / 100000000"
    by (simp only: diff_divide_distrib)
  finally have e: "fmt8 x - x = (of_int k - y) / 100000000" .
  have "\<bar>(of_int k - y) / 100000000\<bar> = \<bar>of_int k - y\<bar> / 100000000"
    by (simp add: abs_divide)
  then have "\<bar>fmt8 x - x\<bar> = \<bar>of_int k - y\<bar> / 100000000"
    by (simp only: e)
  with \<open>\<bar>of_int k - y\<bar> \<le> 1 / 2\<close> show ?thesis by simp
qed

text \<open>
  Claim C5, as the code has it. Two contributors with the same key and positive base
  volumes \<open>b1\<close>, \<open>b2\<close>, target volumes \<open>t1\<close>, \<open>t2\<close> and prices \<open>pr1\<close>, \<open>pr2\<close> give one
  record under that key, with the names of the first. The record keeps its numbers as
  eight-decimal strings, so the first contributor enters every sum rounded and every
  stored number is rounded again. For inputs that have at most eight decimals the
  volumes are the plain sums \<open>b1 + b2\<close> and \<open>t1 + t2\<close>, and the price is the average of
  \<open>pr1\<close> and \<open>pr2\<close> weighted by \<open>t1\<close> and \<open>t2\<close>, rounded to eight decimals, provided the
  combined target volume is positive; with equal positive target volumes this is the
  rounded arithmetic mean. When the combined target volume is not positive the price is
  that of the second contributor. The same step applies to every further contributor of
  a key that is already there, and a contributor whose base volume is not positive
  changes nothing. Rounding moves a number by at most half a unit of the eighth decimal.
\<close>

theorem aggregation_weighted_price:
  assumes key: "pair_key_of p2 = pair_key_of p1"
    and v1: "tp_base_volume p1 = Num b1" "tp_target_volume p1 = Num t1" "tp_last p1 = Num pr1"
    and v2: "tp_base_volume p2 = Num b2" "tp_target_volume p2 = Num t2" "tp_last p2 = Num pr2"
    and pos: "0 < b1" "0 < b2"
  shows "aggregate_pairs_for_iaddress_cmc [p1, p2] (pair_key_of p1) =
           Some \<lparr>base_id = get_str (tp_base_currency_id p1),
                 base_name = get_str (tp_base_currency p1),
                 base_symbol = get_str (tp_base_currency p1),
                 quote_id = get_str (tp_target_currency_id p1),
                 quote_name = get_str (tp_target_currency p1),
                 quote_symbol = get_str (tp_target_currency p1),
                 last_price = fmt8 (if 0 < fmt8 t1 + t2
                                    then (fmt8 pr1 * fmt8 t1 + pr2 * t2) / (fmt8 t1 + t2)
                                    else pr2),
                 base_volume = fmt8 (fmt8 b1 + b2),
                 quote_volume = fmt8 (fmt8 t1 + t2)\<rparr>
       \<and> (fmt8 b1 = b1 \<longrightarrow> fmt8 b2 = b2 \<longrightarrow>
            map_option base_volume (aggregate_pairs_for_iaddress_cmc [p1, p2] (pair_key_of p1))
              = Some (b1 + b2))
       \<and> (fmt8 t1 = t1 \<longrightarrow> fmt8 t2 = t2 \<longrightarrow>
            map_option quote_volume (aggregate_pairs_for_iaddress_cmc [p1, p2] (pair_key_of p1))
              = Some (t1 + t2))
       \<and> (fmt8 t1 = t1 \<longrightarrow> fmt8 pr1 = pr1 \<longrightarrow> 0 < t1 + t2 \<longrightarrow>
            map_option last_price (aggregate_pairs_for_iaddress_cmc [p1, p2] (pair_key_of p1))
              = Some (fmt8 ((pr1 * t1 + pr2 * t2) / (t1 + t2))))
       \<and> (fmt8 t1 = t1 \<longrightarrow> fmt8 pr1 = pr1 \<longrightarrow> t2 = t1 \<longrightarrow> 0 < t1 \<longrightarrow>
            map_option last_price (aggregate_pairs_for_iaddress_cmc [p1, p2] (pair_key_of p1))
              = Some (fmt8 ((pr1 + pr2) / 2)))
       \<and> (fmt8 t1 + t2 \<le> 0 \<longrightarrow>
            map_option last_price (aggregate_pairs_for_iaddress_cmc [p1, p2] (pair_key_of p1))
              = Some (fmt8 pr2))
       \<and> (\<forall>agg existing p b t price.
            tp_base_volume p = Num b \<longrightarrow> tp_target_volume p = Num t \<longrightarrow> tp_last p = Num price \<longrightarrow>
            0 < b \<longrightarrow> agg (pair_key_of p) = Some existing \<longrightarrow>
            aggregate_one agg p =
              Inr (agg(pair_key_of p \<mapsto>
                     existing\<lparr>last_price :=
                                fmt8 (if 0 < quote_volume existing + t
                                      then (last_price existing * quote_volume existing + price * t)
                                             / (quote_volume existing + t)
                                      else price),
                              base_volume := fmt8 (base_volume existing + b),
                              quote_volume := fmt8 (quote_volume existing + t)\<rparr>)))
       \<and> (\<forall>agg p b t price.
            tp_base_volume p = Num b \<longrightarrow> tp_target_volume p = Num t \<longrightarrow> tp_last p = Num price \<longrightarrow>
            b \<le> 0 \<longrightarrow> aggregate_one agg p = Inr agg)
       \<and> (\<forall>x. \<bar>fmt8 x - x\<bar> \<le> 1 / 200000000)"
proof -
  note two = aggregate_two[OF key v1 v2 pos]
  have mean: "(pr1 * t1 + pr2 * t1) / (t1 + t1) = (pr1 + pr2) / 2" if "0 < t1"
    using that by (simp add: field_simps)
  have step: "\<forall>agg existing p b t price.
            tp_base_volume p = Num b \<longrightarrow> tp_target_volume p = Num t \<longrightarrow> tp_last p = Num price \<longrightarrow>
            0 < b \<longrightarrow> agg (pair_key_of p) = Some existing \<longrightarrow>
            aggregate_one agg p =
              Inr (agg(pair_key_of p \<mapsto>
                     existing\<lparr>last_price :=
                                fmt8 (if 0 < quote_volume existing + t
                                      then (last_price existing * quote_volume existing + price * t)
                                             / (quote_volume existing + t)
                                      else price),
                              base_volume := fmt8 (base_volume existing + b),
                              quote_volume := fmt8 (quote_volume existing + t)\<rparr>))"
    by (intro allI impI, rule aggregate_one_merge) (simp_all add: py_float_def)
  have skip: "\<forall>agg p b t price.
            tp_base_volume p = Num b \<longrightarrow> tp_target_volume p = Num t \<longrightarrow> tp_last p = Num price \<longrightarrow>
            b \<le> 0 \<longrightarrow> aggregate_one agg p = Inr agg"
    by (intro allI impI, rule aggregate_one_skip) (simp_all add: py_float_def)
  let ?agg = "aggregate_pairs_for_iaddress_cmc [p1, p2] (pair_key_of p1)"
  have bv: "map_option base_volume ?agg = Some (fmt8 (fmt8 b1 + b2))"
    and qv: "map_option quote_volume ?agg = Some (fmt8 (fmt8 t1 + t2))"
    and lp: "map_option last_price ?agg =
               Some (fmt8 (if 0 < fmt8 t1 + t2
                           then (fmt8 pr1 * fmt8 t1 + pr2 * t2) / (fmt8 t1 + t2)
                           else pr2))"
    by (simp_all only: two option.map_sel option.simps cmc_ticker.simps)
  have c2: "fmt8 b1 = b1 \<longrightarrow> fmt8 b2 = b2 \<longrightarrow> map_option base_volume ?agg = Some (b1 + b2)"
    by (simp add: bv fmt8_add)
  have c3: "fmt8 t1 = t1 \<longrightarrow> fmt8 t2 = t2 \<longrightarrow> map_option quote_volume ?agg = Some (t1 + t2)"
    by (simp add: qv fmt8_add)
  have c4: "fmt8 t1 = t1 \<longrightarrow> fmt8 pr1 = pr1 \<longrightarrow> 0 < t1 + t2 \<longrightarrow>
            map_option last_price ?agg = Some (fmt8 ((pr1 * t1 + pr2 * t2) / (t1 + t2)))"
    by (simp add: lp)
  have c5: "fmt8 t1 = t1 \<longrightarrow> fmt8 pr1 = pr1 \<longrightarrow> t2 = t1 \<longrightarrow> 0 < t1 \<longrightarrow>
            map_option last_price ?agg = Some (fmt8 ((pr1 + pr2) / 2))"
  proof (intro impI)
    assume g: "fmt8 t1 = t1" "fmt8 pr1 = pr1" "t2 = t1" "0 < t1"
    then have "0 < fmt8 t1 + t2" by simp
    then have "map_option last_price ?agg = Some (fmt8 ((pr1 * t1 + pr2 * t1) / (t1 + t1)))"
      using g by (simp only: lp if_True)
    then show "map_option last_price ?agg = Some (fmt8 ((pr1 + pr2) / 2))"
      by (simp only: mean[OF g(4)])
  qed
  have c6: "fmt8 t1 + t2 \<le> 0 \<longrightarrow> map_option last_price ?agg = Some (fmt8 pr2)"
    by (simp add: lp)
  have c9: "\<forall>x. \<bar>fmt8 x - x\<bar> \<le> 1 / 200000000"
    by (intro allI) (rule fmt8_close)
  from two c2 c3 c4 c5 c6 step skip c9 show ?thesis
    by (intro conjI)
qed

lemma traded_key: "pair_key_of (traded b t price) = vrsc_dai_key"
  by (simp add: pair_key_of_def traded_def get_str_def vrsc_dai_key_def)

lemma fmt8_whole: "fmt8 100 = 100" "fmt8 50 = 50" "fmt8 2 = 2" "fmt8 0 = 0"
  by (simp_all add: fmt8_def)

lemma fmt8_sums: "fmt8 150 = 150" "fmt8 75 = 75" "fmt8 4 = 4"
  by (simp_all add: fmt8_def)

lemma fmt8_eight_thirds: "fmt8 (8 / 3) = 266666667 / 100000000"
  by (simp add: fmt8_def Let_def)

text \<open>
  The scenario of the claim: volumes (100, 50) and (50, 25) with prices 2 and 4 give
  volumes 150 and 75 and the price 2.66666667, which is 8/3 rounded to eight decimals.
\<close>

theorem aggregation_weighted_price_witness:
  "pair_key_of (traded 50 25 4) = pair_key_of (traded 100 50 2)
   \<and> map_option base_volume
        (aggregate_pairs_for_iaddress_cmc [traded 100 50 2, traded 50 25 4] vrsc_dai_key) = Some 150
   \<and> map_option quote_volume
        (aggregate_pairs_for_iaddress_cmc [traded 100 50 2, traded 50 25 4] vrsc_dai_key) = Some 75
   \<and> map_option last_price
        (aggregate_pairs_for_iaddress_cmc [traded 100 50 2, traded 50 25 4] vrsc_dai_key)
       = Some (266666667 / 100000000)
   \<and> (2 * 50 + 4 * 25) / (75 :: real) = 8 / 3"
proof -
  let ?p1 = "traded 100 50 2" and ?p2 = "traded 50 25 4"
  have key: "pair_key_of ?p2 = pair_key_of ?p1" by (simp only: traded_key)
  have v1: "tp_base_volume ?p1 = Num 100" "tp_target_volume ?p1 = Num 50" "tp_last ?p1 = Num 2"
    by (simp_all add: traded_def)
  have v2: "tp_base_volume ?p2 = Num 50" "tp_target_volume ?p2 = Num 25" "tp_last ?p2 = Num 4"
    by (simp_all add: traded_def)
  have pos: "(0::real) < 100" "(0::real) < 50" by simp_all
  note inst = aggregation_weighted_price[OF key v1 v2 pos]
  from inst have bv: "map_option base_volume
        (aggregate_pairs_for_iaddress_cmc [?p1, ?p2] (pair_key_of ?p1)) = Some (100 + 50)"
    using fmt8_whole by blast
  have "fmt8 25 = (25::real)" by (simp add: fmt8_def)
  with inst have qv: "map_option quote_volume
        (aggregate_pairs_for_iaddress_cmc [?p1, ?p2] (pair_key_of ?p1)) = Some (50 + 25)"
    using fmt8_whole by blast
  have "(0::real) < 50 + 25" by simp
  with inst have lp: "map_option last_price
        (aggregate_pairs_for_iaddress_cmc [?p1, ?p2] (pair_key_of ?p1))
          = Some (fmt8 ((2 * 50 + 4 * 25) / (50 + 25)))"
    using fmt8_whole by blast
  have q: "(2 * 50 + 4 * 25) / (50 + 25 :: real) = 8 / 3" by simp
  from bv have bv': "map_option base_volume
        (aggregate_pairs_for_iaddress_cmc [?p1, ?p2] vrsc_dai_key) = Some 150"
    by (simp add: traded_key)
  from qv have qv': "map_option quote_volume
        (aggregate_pairs_for_iaddress_cmc [?p1, ?p2] vrsc_dai_key) = Some 75"
    by (simp add: traded_key)
  from lp have lp': "map_option last_price
        (aggregate_pairs_for_iaddress_cmc [?p1, ?p2] vrsc_dai_key) = Some (266666667 / 100000000)"
    by (simp only: traded_key q fmt8_eight_thirds)
  have q': "(2 * 50 + 4 * 25) / (75 :: real) = 8 / 3" by simp
  from key bv' qv' lp' q' show ?thesis by (intro conjI)
qed

text \<open>
  Two contributors with the same target volume, 0, and prices 2 and 4: the aggregated
  price is 4, the price of the second, and not the arithmetic mean 3.
\<close>

theorem equal_zero_quote_counterexample:
  "pair_key_of (traded 50 0 4) = pair_key_of (traded 100 0 2)
   \<and> tp_target_volume (traded 50 0 4) = tp_target_volume (traded 100 0 2)
   \<and> map_option last_price
        (aggregate_pairs_for_iaddress_cmc [traded 100 0 2, traded 50 0 4] vrsc_dai_key) = Some 4
   \<and> (2 + 4) / 2 = (3 :: real)"
proof -
  let ?p1 = "traded 100 0 2" and ?p2 = "traded 50 0 4"
  have key: "pair_key_of ?p2 = pair_key_of ?p1" by (simp only: traded_key)
  have v1: "tp_base_volume ?p1 = Num 100" "tp_target_volume ?p1 = Num 0" "tp_last ?p1 = Num 2"
    by (simp_all add: traded_def)
  have v2: "tp_base_volume ?p2 = Num 50" "tp_target_volume ?p2 = Num 0" "tp_last ?p2 = Num 4"
    by (simp_all add: traded_def)
  have pos: "(0::real) < 100" "(0::real) < 50" by simp_all
  have "map_option last_price
        (aggregate_pairs_for_iaddress_cmc [?p1, ?p2] (pair_key_of ?p1)) = Some 4"
    by (simp add: aggregate_two[OF key v1 v2 pos] fmt8_whole fmt8_sums)
  then have price: "map_option last_price
        (aggregate_pairs_for_iaddress_cmc [?p1, ?p2] vrsc_dai_key) = Some 4"
    by (simp only: traded_key)
  have same: "tp_target_volume ?p2 = tp_target_volume ?p1"
    by (simp add: traded_def)
  have mean: "(2 + 4) / 2 = (3 :: real)" by simp
  from key same price mean show ?thesis by (intro conjI)
qed

end
